theory Spec2Isabelle
  imports Main "HOL-Library.Word"
begin

unbundle bit_operations_syntax

section \<open>Values shared with the parser\<close>

text \<open>
  The emitter (WasmEmitter.ts) and the disassembler (WasmDis.ts) consume the events of the
  streaming parser. A byte is an 8-bit word, an index or a count that the binary format
  stores as varuint32 is a 32-bit word, and a signed type tag is an integer. Record fields
  carry a short prefix of their interface (\<open>op_code\<close> is \<open>IOperatorInformation.code\<close>),
  since field names are global here. A field that TypeScript declares optional is an
  \<open>option\<close>, with \<open>None\<close> for \<open>undefined\<close>.
\<close>

type_synonym byte = "8 word"
type_synonym u32 = "32 word"

record ModuleHeader =
  hdr_magic :: u32
  hdr_version :: u32

record SectionInformation =
  sec_id :: u32
  sec_name :: "byte list"

record FunctionType =
  ft_form :: int
  ft_params :: "int list"
  ft_returns :: "int list"

record ResizableLimits =
  lim_initial :: u32
  lim_maximum :: "u32 option"

record TableType =
  tt_elementType :: int
  tt_limits :: ResizableLimits

record MemoryType =
  mt_limits :: ResizableLimits

record GlobalType =
  gt_contentType :: int
  gt_mutability :: u32

datatype ImportType = ImportTable TableType | ImportMemory MemoryType | ImportGlobal GlobalType

record ImportEntry =
  imp_module :: "byte list"
  imp_field :: "byte list"
  imp_kind :: byte
  imp_funcTypeIndex :: "u32 option"
  imp_type :: "ImportType option"

record ExportEntry =
  exp_field :: "byte list"
  exp_kind :: byte
  exp_index :: u32

record FunctionEntry =
  fe_typeIndex :: u32

record Locals =
  loc_count :: u32
  loc_type :: int

record FunctionInformation =
  fi_locals :: "Locals list"

record MemoryAddress =
  ma_flags :: u32
  ma_offset :: u32

text \<open>
  A literal is a number or an Int64. A number that holds a 32-bit integer is kept as that
  integer; a number that holds a float is kept as the bit pattern of its IEEE-754
  encoding, which is all that the byte-level claims about the float constants speak of.
  An Int64 is its array of bytes.
\<close>

datatype Literal =
  I32Literal int
  | I64Literal "byte list"
  | F32Literal "32 word"
  | F64Literal "64 word"

record OperatorInformation =
  op_code :: byte
  op_blockType :: "int option"
  op_brDepth :: "u32 option"
  op_brTable :: "u32 list option"
  op_funcIndex :: "u32 option"
  op_typeIndex :: "u32 option"
  op_localIndex :: "u32 option"
  op_globalIndex :: "u32 option"
  op_memoryAddress :: "MemoryAddress option"
  op_literal :: "Literal option"

record DataSegment =
  ds_index :: u32

record DataSegmentBody =
  dsb_data :: "byte list"

record GlobalVariable =
  gv_type :: GlobalType

record ElementSegment =
  es_index :: u32

record ElementSegmentBody =
  esb_elements :: "u32 list"

text \<open>
  A reader state together with the result that the reader holds in that state. The
  constructors are the members of \<open>BinaryReaderState\<close> that the two consumers name;
  \<open>OTHER_STATE\<close> stands for every other member. \<open>BEGIN_WASM\<close> carries an optional
  header because \<open>writeData\<close> passes \<open>data.result || null\<close>.
\<close>

datatype ReaderEvent =
  ERROR string
  | BEGIN_WASM "ModuleHeader option"
  | END_WASM
  | BEGIN_SECTION SectionInformation
  | END_SECTION
  | TYPE_SECTION_ENTRY FunctionType
  | IMPORT_SECTION_ENTRY ImportEntry
  | FUNCTION_SECTION_ENTRY FunctionEntry
  | EXPORT_SECTION_ENTRY ExportEntry
  | BEGIN_FUNCTION_BODY FunctionInformation
  | END_FUNCTION_BODY
  | MEMORY_SECTION_ENTRY MemoryType
  | TABLE_SECTION_ENTRY TableType
  | INIT_EXPRESSION_OPERATOR OperatorInformation
  | CODE_OPERATOR OperatorInformation
  | BEGIN_DATA_SECTION_ENTRY DataSegment
  | DATA_SECTION_ENTRY_BODY DataSegmentBody
  | END_DATA_SECTION_ENTRY
  | BEGIN_INIT_EXPRESSION_BODY
  | END_INIT_EXPRESSION_BODY
  | BEGIN_ELEMENT_SECTION_ENTRY ElementSegment
  | ELEMENT_SECTION_ENTRY_BODY ElementSegmentBody
  | END_ELEMENT_SECTION_ENTRY
  | BEGIN_GLOBAL_SECTION_ENTRY GlobalVariable
  | END_GLOBAL_SECTION_ENTRY
  | OTHER_STATE int

subsection \<open>Enumerations of WasmParser\<close>

text \<open>
  Modelled from the spec: the enums \<open>SectionCode\<close>, \<open>ExternalKind\<close>, \<open>Type\<close> and
  \<open>OperatorCode\<close> are declared in WasmParser.ts, which is not among the sources. The
  section ids are those of the spec's data model; the spec's scenarios fix
  \<open>end = 0x0B\<close>, \<open>br_table = 0x0E\<close>, \<open>i32.const = 0x41\<close>, \<open>func = -0x20\<close> and
  \<open>i32 = -0x01\<close>; the other values are those of the WebAssembly MVP binary format,
  which the spec says the emitter reproduces bit-exactly.
\<close>

named_theorems SectionCode_defs
named_theorems ExternalKind_defs
named_theorems Type_defs
named_theorems OperatorCode_defs

definition SectionCode_Custom :: u32 where [SectionCode_defs]: "SectionCode_Custom = 0"
definition SectionCode_Type :: u32 where [SectionCode_defs]: "SectionCode_Type = 1"
definition SectionCode_Import :: u32 where [SectionCode_defs]: "SectionCode_Import = 2"
definition SectionCode_Function :: u32 where [SectionCode_defs]: "SectionCode_Function = 3"
definition SectionCode_Table :: u32 where [SectionCode_defs]: "SectionCode_Table = 4"
definition SectionCode_Memory :: u32 where [SectionCode_defs]: "SectionCode_Memory = 5"
definition SectionCode_Global :: u32 where [SectionCode_defs]: "SectionCode_Global = 6"
definition SectionCode_Export :: u32 where [SectionCode_defs]: "SectionCode_Export = 7"
definition SectionCode_Start :: u32 where [SectionCode_defs]: "SectionCode_Start = 8"
definition SectionCode_Element :: u32 where [SectionCode_defs]: "SectionCode_Element = 9"
definition SectionCode_Code :: u32 where [SectionCode_defs]: "SectionCode_Code = 10"
definition SectionCode_Data :: u32 where [SectionCode_defs]: "SectionCode_Data = 11"

definition ExternalKind_Function :: byte where [ExternalKind_defs]: "ExternalKind_Function = 0"
definition ExternalKind_Table :: byte where [ExternalKind_defs]: "ExternalKind_Table = 1"
definition ExternalKind_Memory :: byte where [ExternalKind_defs]: "ExternalKind_Memory = 2"
definition ExternalKind_Global :: byte where [ExternalKind_defs]: "ExternalKind_Global = 3"

definition Type_i32 :: int where [Type_defs]: "Type_i32 = - 1"
definition Type_i64 :: int where [Type_defs]: "Type_i64 = - 2"
definition Type_f32 :: int where [Type_defs]: "Type_f32 = - 3"
definition Type_f64 :: int where [Type_defs]: "Type_f64 = - 4"
definition Type_anyfunc :: int where [Type_defs]: "Type_anyfunc = - 16"
definition Type_func :: int where [Type_defs]: "Type_func = - 32"
definition Type_empty_block_type :: int where [Type_defs]: "Type_empty_block_type = - 64"

definition OperatorCode_block :: byte where [OperatorCode_defs]: "OperatorCode_block = 0x02"
definition OperatorCode_loop :: byte where [OperatorCode_defs]: "OperatorCode_loop = 0x03"
definition OperatorCode_if :: byte where [OperatorCode_defs]: "OperatorCode_if = 0x04"
definition OperatorCode_else :: byte where [OperatorCode_defs]: "OperatorCode_else = 0x05"
definition OperatorCode_end :: byte where [OperatorCode_defs]: "OperatorCode_end = 0x0b"
definition OperatorCode_br :: byte where [OperatorCode_defs]: "OperatorCode_br = 0x0c"
definition OperatorCode_br_if :: byte where [OperatorCode_defs]: "OperatorCode_br_if = 0x0d"
definition OperatorCode_br_table :: byte where [OperatorCode_defs]: "OperatorCode_br_table = 0x0e"
definition OperatorCode_call :: byte where [OperatorCode_defs]: "OperatorCode_call = 0x10"
definition OperatorCode_call_indirect :: byte where [OperatorCode_defs]: "OperatorCode_call_indirect = 0x11"
definition OperatorCode_get_local :: byte where [OperatorCode_defs]: "OperatorCode_get_local = 0x20"
definition OperatorCode_set_local :: byte where [OperatorCode_defs]: "OperatorCode_set_local = 0x21"
definition OperatorCode_tee_local :: byte where [OperatorCode_defs]: "OperatorCode_tee_local = 0x22"
definition OperatorCode_get_global :: byte where [OperatorCode_defs]: "OperatorCode_get_global = 0x23"
definition OperatorCode_set_global :: byte where [OperatorCode_defs]: "OperatorCode_set_global = 0x24"
definition OperatorCode_i32_load :: byte where [OperatorCode_defs]: "OperatorCode_i32_load = 0x28"
definition OperatorCode_i64_load :: byte where [OperatorCode_defs]: "OperatorCode_i64_load = 0x29"
definition OperatorCode_f32_load :: byte where [OperatorCode_defs]: "OperatorCode_f32_load = 0x2a"
definition OperatorCode_f64_load :: byte where [OperatorCode_defs]: "OperatorCode_f64_load = 0x2b"
definition OperatorCode_i32_load8_s :: byte where [OperatorCode_defs]: "OperatorCode_i32_load8_s = 0x2c"
definition OperatorCode_i32_load8_u :: byte where [OperatorCode_defs]: "OperatorCode_i32_load8_u = 0x2d"
definition OperatorCode_i32_load16_s :: byte where [OperatorCode_defs]: "OperatorCode_i32_load16_s = 0x2e"
definition OperatorCode_i32_load16_u :: byte where [OperatorCode_defs]: "OperatorCode_i32_load16_u = 0x2f"
definition OperatorCode_i64_load8_s :: byte where [OperatorCode_defs]: "OperatorCode_i64_load8_s = 0x30"
definition OperatorCode_i64_load8_u :: byte where [OperatorCode_defs]: "OperatorCode_i64_load8_u = 0x31"
definition OperatorCode_i64_load16_s :: byte where [OperatorCode_defs]: "OperatorCode_i64_load16_s = 0x32"
definition OperatorCode_i64_load16_u :: byte where [OperatorCode_defs]: "OperatorCode_i64_load16_u = 0x33"
definition OperatorCode_i64_load32_s :: byte where [OperatorCode_defs]: "OperatorCode_i64_load32_s = 0x34"
definition OperatorCode_i64_load32_u :: byte where [OperatorCode_defs]: "OperatorCode_i64_load32_u = 0x35"
definition OperatorCode_i32_store :: byte where [OperatorCode_defs]: "OperatorCode_i32_store = 0x36"
definition OperatorCode_i64_store :: byte where [OperatorCode_defs]: "OperatorCode_i64_store = 0x37"
definition OperatorCode_f32_store :: byte where [OperatorCode_defs]: "OperatorCode_f32_store = 0x38"
definition OperatorCode_f64_store :: byte where [OperatorCode_defs]: "OperatorCode_f64_store = 0x39"
definition OperatorCode_i32_store8 :: byte where [OperatorCode_defs]: "OperatorCode_i32_store8 = 0x3a"
definition OperatorCode_i32_store16 :: byte where [OperatorCode_defs]: "OperatorCode_i32_store16 = 0x3b"
definition OperatorCode_i64_store8 :: byte where [OperatorCode_defs]: "OperatorCode_i64_store8 = 0x3c"
definition OperatorCode_i64_store16 :: byte where [OperatorCode_defs]: "OperatorCode_i64_store16 = 0x3d"
definition OperatorCode_i64_store32 :: byte where [OperatorCode_defs]: "OperatorCode_i64_store32 = 0x3e"
definition OperatorCode_current_memory :: byte where [OperatorCode_defs]: "OperatorCode_current_memory = 0x3f"
definition OperatorCode_grow_memory :: byte where [OperatorCode_defs]: "OperatorCode_grow_memory = 0x40"
definition OperatorCode_i32_const :: byte where [OperatorCode_defs]: "OperatorCode_i32_const = 0x41"
definition OperatorCode_i64_const :: byte where [OperatorCode_defs]: "OperatorCode_i64_const = 0x42"
definition OperatorCode_f32_const :: byte where [OperatorCode_defs]: "OperatorCode_f32_const = 0x43"
definition OperatorCode_f64_const :: byte where [OperatorCode_defs]: "OperatorCode_f64_const = 0x44"

section \<open>The emitter: byte buffer and LEB128 writers\<close>

text \<open>
  The private writers of \<open>Emitter\<close> touch only \<open>_buffer\<close>, so each is a function on the
  buffer. An element of the buffer that JavaScript leaves \<open>undefined\<close> (a hole, or a
  pushed \<open>undefined\<close>) is the byte 0 here: that is what \<open>new Uint8Array(this._buffer)\<close>
  makes of it, and the buffer is read in no other way.
\<close>

definition writeByte :: "byte \<Rightarrow> byte list \<Rightarrow> byte list" where
  "writeByte b buf = buf @ [b]"

definition writeMutiple :: "byte list \<Rightarrow> byte list \<Rightarrow> byte list" where
  "writeMutiple bytes buf = buf @ bytes"

definition patchByte :: "nat \<Rightarrow> byte \<Rightarrow> byte list \<Rightarrow> byte list" where
  "patchByte pos b buf =
     (if pos < length buf then buf[pos := b]
      else buf @ replicate (pos - length buf) 0 @ [b])"

function writeVarUint :: "u32 \<Rightarrow> byte list \<Rightarrow> byte list" where
  "writeVarUint n buf =
     (if n AND NOT 0x7F \<noteq> 0
      then writeVarUint (drop_bit 7 n) (writeByte (0x80 OR ucast (n AND 0x7f)) buf)
      else writeByte (ucast n) buf)"
  by pat_completeness auto
termination
proof (relation "measure (\<lambda>(n, buf). unat n)")
  show "wf (measure (\<lambda>(n :: u32, buf :: byte list). unat n))"
    by simp
next
  fix n :: u32 and buf :: "byte list"
  assume "n AND NOT 0x7F \<noteq> 0"
  then have "n \<noteq> 0"
    by auto
  then have "0 < unat n"
    by (simp add: unat_gt_0)
  then have "unat n div 2 ^ 7 < unat n"
    by simp
  then show "((drop_bit 7 n, writeByte (0x80 OR ucast (n AND 0x7f)) buf), (n, buf))
      \<in> measure (\<lambda>(n, buf). unat n)"
    by (simp add: drop_bit_eq_div unat_div)
qed

text \<open>
  \<open>writeVarInt\<close> first takes its argument to a signed 32-bit integer (\<open>n |= 0\<close>). The
  source computes \<open>test = n >> 31\<close> once, before the loop; an arithmetic shift keeps the
  sign, so \<open>n >> 31\<close> has the same value in every iteration and the loop below reads it
  from the current \<open>n\<close> (lemma \<open>writeVarInt_test_invariant\<close>).
\<close>

function writeVarInt_loop :: "32 word \<Rightarrow> byte list \<Rightarrow> byte list" where
  "writeVarInt_loop n buf =
     (if signed_drop_bit 6 n \<noteq> signed_drop_bit 31 n
      then writeVarInt_loop (signed_drop_bit 7 n) (writeByte (0x80 OR ucast (n AND 0x7f)) buf)
      else writeByte (ucast (n AND 0x7f)) buf)"
  by pat_completeness auto
termination
proof (relation "measure (\<lambda>(n, buf). nat \<bar>sint n\<bar>)")
  show "wf (measure (\<lambda>(n :: 32 word, buf :: byte list). nat \<bar>sint n\<bar>))"
    by simp
next
  fix n :: "32 word" and buf :: "byte list"
  assume a: "signed_drop_bit 6 n \<noteq> signed_drop_bit 31 n"
  have "n \<noteq> 0" "n \<noteq> - 1"
    using a by auto
  then have "sint n \<noteq> 0" "sint n \<noteq> - 1"
    by (auto simp: signed_eq_0_iff) (metis sint_n1 signed_word_eqI)
  then have "\<bar>sint n div 2 ^ 7\<bar> < \<bar>sint n\<bar>"
    by (cases "0 \<le> sint n") (simp_all add: abs_if, linarith+)
  then show "((signed_drop_bit 7 n, writeByte (0x80 OR ucast (n AND 0x7f)) buf), (n, buf))
      \<in> measure (\<lambda>(n, buf). nat \<bar>sint n\<bar>)"
    by (simp add: sint_signed_drop_bit_eq drop_bit_eq_div)
qed

definition writeVarInt :: "int \<Rightarrow> byte list \<Rightarrow> byte list" where
  "writeVarInt n buf = writeVarInt_loop (word_of_int n) buf"

text \<open>
  \<open>writeVarUint(undefined)\<close> skips the loop (\<open>undefined & ~0x7F\<close> is 0) and pushes
  \<open>undefined\<close>; \<open>writeVarInt(undefined)\<close> pushes the byte 0 (\<open>undefined | 0\<close> is 0).
  The two functions below are the writers applied to an optional field.
\<close>

definition writeVarUint_opt :: "u32 option \<Rightarrow> byte list \<Rightarrow> byte list" where
  "writeVarUint_opt n buf = (case n of Some v \<Rightarrow> writeVarUint v buf | None \<Rightarrow> writeByte 0 buf)"

definition writeVarInt_opt :: "int option \<Rightarrow> byte list \<Rightarrow> byte list" where
  "writeVarInt_opt n buf = (case n of Some v \<Rightarrow> writeVarInt v buf | None \<Rightarrow> writeVarInt 0 buf)"

text \<open>\<open>writePatchableVarUint32\<close> returns the position of the slot and the new buffer.\<close>

definition writePatchableVarUint32 :: "byte list \<Rightarrow> nat \<times> byte list" where
  "writePatchableVarUint32 buf =
     (let pos = length buf in (pos, writeMutiple [0x80, 0x80, 0x80, 0x80, 0x00] buf))"

text \<open>Reading a typed array beyond its end gives \<open>undefined\<close>, the byte 0 of the buffer.\<close>

definition writeBytes :: "byte list \<Rightarrow> nat \<Rightarrow> nat \<Rightarrow> byte list \<Rightarrow> byte list" where
  "writeBytes bytes start end buf =
     foldl (\<lambda>b i. writeByte (if i < length bytes then bytes ! i else 0) b) buf [start..<end]"

definition writeString :: "byte list \<Rightarrow> byte list \<Rightarrow> byte list" where
  "writeString str buf = writeBytes str 0 (length str) (writeVarUint (of_nat (length str)) buf)"

text \<open>
  The argument of \<open>patchVarUint32\<close> is a JavaScript number, the difference of two
  positions or a count: an integer. \<open>&\<close> and \<open>>>>\<close> take it modulo \<open>2 ^ 32\<close>, which is
  \<open>word_of_int\<close>.
\<close>

definition patchVarUint32 :: "nat \<Rightarrow> int \<Rightarrow> byte list \<Rightarrow> byte list" where
  "patchVarUint32 pos n buf =
     (let w = (word_of_int n :: u32);
          buf = patchByte pos (0x80 OR ucast (w AND 0x7F)) buf;
          buf = patchByte (pos + 1) (0x80 OR ucast (drop_bit 7 w AND 0x7F)) buf;
          buf = patchByte (pos + 2) (0x80 OR ucast (drop_bit 14 w AND 0x7F)) buf;
          buf = patchByte (pos + 3) (0x80 OR ucast (drop_bit 21 w AND 0x7F)) buf
      in patchByte (pos + 4) (ucast (drop_bit 28 w AND 0x7F)) buf)"

definition writeFuncType :: "FunctionType \<Rightarrow> byte list \<Rightarrow> byte list" where
  "writeFuncType type buf =
     (let buf = writeVarInt (ft_form type) buf;
          buf = writeVarUint (of_nat (length (ft_params type))) buf;
          buf = foldl (\<lambda>b i. writeVarInt (ft_params type ! i) b) buf [0..<length (ft_params type)];
          buf = writeVarUint (of_nat (length (ft_returns type))) buf
      in foldl (\<lambda>b i. writeVarInt (ft_returns type ! i) b) buf [0..<length (ft_returns type)])"

definition writeResizableLimits :: "ResizableLimits \<Rightarrow> byte list \<Rightarrow> byte list" where
  "writeResizableLimits limits buf =
     (let flags = (if lim_maximum limits = None then 0 else 1 :: u32);
          buf = writeVarUint flags buf;
          buf = writeVarUint (lim_initial limits) buf
      in if flags \<noteq> 0 then writeVarUint_opt (lim_maximum limits) buf else buf)"

definition writeTableType :: "TableType \<Rightarrow> byte list \<Rightarrow> byte list" where
  "writeTableType type buf = writeResizableLimits (tt_limits type) (writeVarInt (tt_elementType type) buf)"

definition writeMemoryType :: "MemoryType \<Rightarrow> byte list \<Rightarrow> byte list" where
  "writeMemoryType type buf = writeResizableLimits (mt_limits type) buf"

definition writeGlobalType :: "GlobalType \<Rightarrow> byte list \<Rightarrow> byte list" where
  "writeGlobalType type buf = writeVarUint (gt_mutability type) (writeVarInt (gt_contentType type) buf)"

definition writeMemoryImmediate :: "MemoryAddress \<Rightarrow> byte list \<Rightarrow> byte list" where
  "writeMemoryImmediate address buf = writeVarUint (ma_offset address) (writeVarUint (ma_flags address) buf)"

definition writeVarInt64 :: "byte list \<Rightarrow> byte list \<Rightarrow> byte list" where
  "writeVarInt64 n_data buf = writeBytes n_data 0 8 buf"

text \<open>
  \<open>writeFloat32\<close> and \<open>writeFloat64\<close> allocate a zeroed array, read a float from it
  (\<open>getFloat32\<close>, \<open>getFloat64\<close>: the value read is dropped) and write the array. The
  argument \<open>n\<close> is not used.
\<close>

definition writeFloat32 :: "Literal option \<Rightarrow> byte list \<Rightarrow> byte list" where
  "writeFloat32 n buf = (let data = replicate 4 (0 :: byte) in writeBytes data 0 (length data) buf)"

definition writeFloat64 :: "Literal option \<Rightarrow> byte list \<Rightarrow> byte list" where
  "writeFloat64 n buf = (let data = replicate 8 (0 :: byte) in writeBytes data 0 (length data) buf)"

section \<open>The emitter: state machine\<close>

datatype EmitterState =
  Initial
  | Error
  | Wasm
  | CustomSecton
  | TypeSection
  | ImportSection
  | FunctionSection
  | TableSection
  | MemorySection
  | GlobalSection
  | ExportSection
  | StartSection
  | ElementSection
  | CodeSection
  | DataSection
  | FunctionBody
  | DataSectionEntry
  | DataSectionEntryBody
  | DataSectionEntryEnd
  | InitExpression

record Emitter =
  buffer :: "byte list"
  state :: EmitterState
  sectionStart :: nat
  sectionSizeBytes :: nat
  sectionEntiesCount :: nat
  sectionEntiesCountBytes :: nat
  bodyStart :: nat
  bodySizeBytes :: nat
  data :: "byte list option"
  endWritten :: bool
  initExpressionAfterState :: EmitterState

definition Emitter_new :: Emitter where
  "Emitter_new = \<lparr> buffer = [], state = Initial, sectionStart = 0, sectionSizeBytes = 0,
     sectionEntiesCount = 0, sectionEntiesCountBytes = 0, bodyStart = 0, bodySizeBytes = 0,
     data = None, endWritten = False, initExpressionAfterState = Initial \<rparr>"

text \<open>
  Every \<open>throw\<close> of the emitter is a value. \<open>TypeError\<close> is the error that JavaScript
  raises when a property of \<open>undefined\<close> is read. \<open>CastMismatch\<close> is not an error of the
  source: it marks a payload whose dynamic type is not the one that an unchecked
  TypeScript cast (\<open><number>\<close>, \<open><ITableType>\<close>) asserts, which the parser never
  produces and which this development leaves out.
\<close>

datatype EmitterError =
  UnexpectedState EmitterState "EmitterState list"
  | EndOperatorExpected
  | UnexpectedSection u32
  | InvalidImportKind byte
  | UnexpectedInitExpressionState
  | InvalidState
  | TypeError
  | CastMismatch

text \<open>
  A method returns the error it throws, if any, and the emitter as the method leaves it:
  what was written before a \<open>throw\<close> stays written.
\<close>

type_synonym EmitterResult = "EmitterError option \<times> Emitter"

definition position :: "Emitter \<Rightarrow> nat" where
  "position e = length (buffer e)"

definition writePatchableSectionEntriesCount :: "Emitter \<Rightarrow> Emitter" where
  "writePatchableSectionEntriesCount e =
     (case writePatchableVarUint32 (buffer e) of
        (pos, buf) \<Rightarrow> e\<lparr>buffer := buf, sectionEntiesCountBytes := pos, sectionEntiesCount := 0\<rparr>)"

definition writeBeginWasm :: "ModuleHeader option \<Rightarrow> Emitter \<Rightarrow> EmitterResult" where
  "writeBeginWasm header e =
     (if state e \<noteq> Initial then (Some (UnexpectedState (state e) [Initial]), e)
      else (None, e\<lparr>buffer := writeMutiple [0x00, 0x61, 0x73, 0x6d, 0x01, 0x00, 0x00, 0x00] (buffer e),
                     state := Wasm\<rparr>))"

definition writeEndWasm :: "Emitter \<Rightarrow> EmitterResult" where
  "writeEndWasm e =
     (if state e \<noteq> Wasm then (Some (UnexpectedState (state e) [Wasm]), e)
      else (None, e\<lparr>state := Initial, data := Some (buffer e), buffer := []\<rparr>))"

definition writeBeginSection :: "SectionInformation \<Rightarrow> Emitter \<Rightarrow> EmitterResult" where
  "writeBeginSection section e =
     (if state e \<noteq> Wasm then (Some (UnexpectedState (state e) [Wasm]), e)
      else
        (case writePatchableVarUint32 (writeVarUint (sec_id section) (buffer e)) of
           (pos, buf) \<Rightarrow>
             (let e = e\<lparr>buffer := buf, sectionSizeBytes := pos, sectionStart := length buf\<rparr>;
                  id = sec_id section
              in
                if id = SectionCode_Custom then
                  (Some (UnexpectedSection id),
                   e\<lparr>buffer := writeString (sec_name section) (buffer e), state := Error\<rparr>)
                else if id = SectionCode_Type then
                  (None, writePatchableSectionEntriesCount (e\<lparr>state := TypeSection\<rparr>))
                else if id = SectionCode_Import then
                  (None, writePatchableSectionEntriesCount (e\<lparr>state := ImportSection\<rparr>))
                else if id = SectionCode_Function then
                  (None, writePatchableSectionEntriesCount (e\<lparr>state := FunctionSection\<rparr>))
                else if id = SectionCode_Export then
                  (None, writePatchableSectionEntriesCount (e\<lparr>state := ExportSection\<rparr>))
                else if id = SectionCode_Code then
                  (None, writePatchableSectionEntriesCount (e\<lparr>state := CodeSection\<rparr>))
                else if id = SectionCode_Memory then
                  (None, writePatchableSectionEntriesCount (e\<lparr>state := MemorySection\<rparr>))
                else if id = SectionCode_Global then
                  (None, writePatchableSectionEntriesCount (e\<lparr>state := GlobalSection\<rparr>))
                else if id = SectionCode_Data then
                  (None, writePatchableSectionEntriesCount (e\<lparr>state := DataSection\<rparr>))
                else
                  (Some (UnexpectedSection id), e\<lparr>state := Error\<rparr>))))"

definition writeTypeSectionEntry :: "FunctionType \<Rightarrow> Emitter \<Rightarrow> EmitterResult" where
  "writeTypeSectionEntry type e =
     (if state e \<noteq> TypeSection then (Some (UnexpectedState (state e) [TypeSection]), e)
      else (None, e\<lparr>sectionEntiesCount := sectionEntiesCount e + 1,
                     buffer := writeFuncType type (buffer e)\<rparr>))"

text \<open>
  In \<open>writeImportSectionEntry\<close> the count is raised and the names and the kind are
  written before the kind is examined, so they stay when the kind is rejected.
\<close>

definition writeImportSectionEntry :: "ImportEntry \<Rightarrow> Emitter \<Rightarrow> EmitterResult" where
  "writeImportSectionEntry entry e =
     (if state e \<noteq> ImportSection then (Some (UnexpectedState (state e) [ImportSection]), e)
      else
        (let buf = writeString (imp_module entry) (buffer e);
             buf = writeString (imp_field entry) buf;
             buf = writeByte (imp_kind entry) buf;
             e = e\<lparr>sectionEntiesCount := sectionEntiesCount e + 1, buffer := buf\<rparr>
         in
           if imp_kind entry = ExternalKind_Function then
             (None, e\<lparr>buffer := writeVarUint_opt (imp_funcTypeIndex entry) buf\<rparr>)
           else if imp_kind entry = ExternalKind_Table then
             (case imp_type entry of
                None \<Rightarrow> (Some TypeError, e)
              | Some (ImportTable t) \<Rightarrow> (None, e\<lparr>buffer := writeTableType t buf\<rparr>)
              | Some _ \<Rightarrow> (Some CastMismatch, e))
           else if imp_kind entry = ExternalKind_Memory then
             (case imp_type entry of
                None \<Rightarrow> (Some TypeError, e)
              | Some (ImportMemory t) \<Rightarrow> (None, e\<lparr>buffer := writeMemoryType t buf\<rparr>)
              | Some _ \<Rightarrow> (Some CastMismatch, e))
           else if imp_kind entry = ExternalKind_Global then
             (case imp_type entry of
                None \<Rightarrow> (Some TypeError, e)
              | Some (ImportGlobal t) \<Rightarrow> (None, e\<lparr>buffer := writeGlobalType t buf\<rparr>)
              | Some _ \<Rightarrow> (Some CastMismatch, e))
           else (Some (InvalidImportKind (imp_kind entry)), e)))"

definition writeFunctionSectionEntry :: "FunctionEntry \<Rightarrow> Emitter \<Rightarrow> EmitterResult" where
  "writeFunctionSectionEntry entry e =
     (if state e \<noteq> FunctionSection then (Some (UnexpectedState (state e) [FunctionSection]), e)
      else (None, e\<lparr>sectionEntiesCount := sectionEntiesCount e + 1,
                     buffer := writeVarUint (fe_typeIndex entry) (buffer e)\<rparr>))"

definition writeExportSectionEntry :: "ExportEntry \<Rightarrow> Emitter \<Rightarrow> EmitterResult" where
  "writeExportSectionEntry entry e =
     (if state e \<noteq> ExportSection then (Some (UnexpectedState (state e) [ExportSection]), e)
      else
        (let buf = writeString (exp_field entry) (buffer e);
             buf = writeByte (exp_kind entry) buf;
             buf = writeVarUint (exp_index entry) buf
         in (None, e\<lparr>sectionEntiesCount := sectionEntiesCount e + 1, buffer := buf\<rparr>)))"

definition writeBeginFunctionBody :: "FunctionInformation \<Rightarrow> Emitter \<Rightarrow> EmitterResult" where
  "writeBeginFunctionBody functionInfo e =
     (if state e \<noteq> CodeSection then (Some (UnexpectedState (state e) [CodeSection]), e)
      else
        (case writePatchableVarUint32 (buffer e) of
           (pos, buf) \<Rightarrow>
             (let locals = fi_locals functionInfo;
                  e = e\<lparr>sectionEntiesCount := sectionEntiesCount e + 1, bodySizeBytes := pos,
                        bodyStart := length buf, endWritten := False, state := FunctionBody\<rparr>;
                  buf = writeVarUint (of_nat (length locals)) buf;
                  buf = foldl (\<lambda>b i. writeVarInt (loc_type (locals ! i))
                                        (writeVarUint (loc_count (locals ! i)) b))
                          buf [0..<length locals]
              in (None, e\<lparr>buffer := buf\<rparr>))))"

definition writeEndFunctionBody :: "Emitter \<Rightarrow> EmitterResult" where
  "writeEndFunctionBody e =
     (if state e \<noteq> FunctionBody then (Some (UnexpectedState (state e) [FunctionBody]), e)
      else if \<not> endWritten e then (Some EndOperatorExpected, e)
      else
        (let bodySize = int (position e) - int (bodyStart e)
         in (None, e\<lparr>buffer := patchVarUint32 (bodySizeBytes e) bodySize (buffer e),
                       state := CodeSection\<rparr>)))"

definition writeBeginDataSectionEntry :: "DataSegment \<Rightarrow> Emitter \<Rightarrow> EmitterResult" where
  "writeBeginDataSectionEntry entry e =
     (if state e \<noteq> DataSection then (Some (UnexpectedState (state e) [DataSection]), e)
      else (None, e\<lparr>sectionEntiesCount := sectionEntiesCount e + 1,
                     buffer := writeVarUint (ds_index entry) (buffer e),
                     state := DataSectionEntry\<rparr>))"

definition writeDataSectionBody :: "DataSegmentBody \<Rightarrow> Emitter \<Rightarrow> EmitterResult" where
  "writeDataSectionBody body e =
     (if state e \<noteq> DataSectionEntryBody
      then (Some (UnexpectedState (state e) [DataSectionEntryBody]), e)
      else (None, e\<lparr>buffer := writeString (dsb_data body) (buffer e),
                     state := DataSectionEntryEnd\<rparr>))"

definition writeEndDataSectionEntry :: "Emitter \<Rightarrow> EmitterResult" where
  "writeEndDataSectionEntry e =
     (if state e \<noteq> DataSectionEntryEnd
      then (Some (UnexpectedState (state e) [DataSectionEntryEnd]), e)
      else (None, e\<lparr>state := DataSection\<rparr>))"

definition writeBeginInitExpression :: "Emitter \<Rightarrow> EmitterResult" where
  "writeBeginInitExpression e =
     (if state e = DataSectionEntry
      then (None, e\<lparr>initExpressionAfterState := DataSectionEntryBody, endWritten := False,
                     state := InitExpression\<rparr>)
      else (Some UnexpectedInitExpressionState, e))"

definition writeEndInitExpression :: "Emitter \<Rightarrow> EmitterResult" where
  "writeEndInitExpression e =
     (if state e \<noteq> InitExpression then (Some (UnexpectedState (state e) [InitExpression]), e)
      else if \<not> endWritten e then (Some EndOperatorExpected, e)
      else (None, e\<lparr>state := initExpressionAfterState e\<rparr>))"

text \<open>
  The \<open>switch\<close> of \<open>writeOperator\<close> over the opcode, on the buffer. An opcode that no
  \<open>case\<close> names has no immediates.
\<close>

definition isMemoryAccess :: "byte \<Rightarrow> bool" where
  "isMemoryAccess c \<longleftrightarrow> c \<in> set
     [OperatorCode_i32_load, OperatorCode_i64_load, OperatorCode_f32_load, OperatorCode_f64_load,
      OperatorCode_i32_load8_s, OperatorCode_i32_load8_u, OperatorCode_i32_load16_s,
      OperatorCode_i32_load16_u, OperatorCode_i64_load8_s, OperatorCode_i64_load8_u,
      OperatorCode_i64_load16_s, OperatorCode_i64_load16_u, OperatorCode_i64_load32_s,
      OperatorCode_i64_load32_u, OperatorCode_i32_store, OperatorCode_i64_store,
      OperatorCode_f32_store, OperatorCode_f64_store, OperatorCode_i32_store8,
      OperatorCode_i32_store16, OperatorCode_i64_store8, OperatorCode_i64_store16,
      OperatorCode_i64_store32]"

definition writeOperator_immediates ::
  "OperatorInformation \<Rightarrow> byte list \<Rightarrow> EmitterError option \<times> byte list" where
  "writeOperator_immediates opInfo buf =
     (let c = op_code opInfo in
      if c = OperatorCode_block \<or> c = OperatorCode_loop \<or> c = OperatorCode_if then
        (None, writeVarInt_opt (op_blockType opInfo) buf)
      else if c = OperatorCode_br \<or> c = OperatorCode_br_if then
        (None, writeVarUint_opt (op_brDepth opInfo) buf)
      else if c = OperatorCode_br_table then
        (case op_brTable opInfo of
           None \<Rightarrow> (Some TypeError, buf)
         | Some brTable \<Rightarrow>
             (let tableCount = int (length brTable) - 1;
                  buf = writeVarUint (word_of_int tableCount) buf
              in (None, foldl (\<lambda>b i. writeVarUint (brTable ! i) b) buf
                          [0..<nat (tableCount + 1)])))
      else if c = OperatorCode_call then
        (None, writeVarUint_opt (op_funcIndex opInfo) buf)
      else if c = OperatorCode_call_indirect then
        (None, writeVarUint 0 (writeVarUint_opt (op_typeIndex opInfo) buf))
      else if c = OperatorCode_get_local \<or> c = OperatorCode_set_local
              \<or> c = OperatorCode_tee_local then
        (None, writeVarUint_opt (op_localIndex opInfo) buf)
      else if c = OperatorCode_get_global \<or> c = OperatorCode_set_global then
        (None, writeVarUint_opt (op_globalIndex opInfo) buf)
      else if isMemoryAccess c then
        (case op_memoryAddress opInfo of
           None \<Rightarrow> (Some TypeError, buf)
         | Some address \<Rightarrow> (None, writeMemoryImmediate address buf))
      else if c = OperatorCode_current_memory \<or> c = OperatorCode_grow_memory then
        (None, writeVarUint 0 buf)
      else if c = OperatorCode_i32_const then
        (case op_literal opInfo of
           None \<Rightarrow> (None, writeVarInt 0 buf)
         | Some (I32Literal n) \<Rightarrow> (None, writeVarInt n buf)
         | Some _ \<Rightarrow> (Some CastMismatch, buf))
      else if c = OperatorCode_i64_const then
        (case op_literal opInfo of
           Some (I64Literal n_data) \<Rightarrow> (None, writeVarInt64 n_data buf)
         | _ \<Rightarrow> (Some TypeError, buf))
      else if c = OperatorCode_f32_const then
        (None, writeFloat32 (op_literal opInfo) buf)
      else if c = OperatorCode_f64_const then
        (None, writeFloat64 (op_literal opInfo) buf)
      else (None, buf))"

definition writeOperator :: "OperatorInformation \<Rightarrow> Emitter \<Rightarrow> EmitterResult" where
  "writeOperator opInfo e =
     (if state e \<noteq> FunctionBody \<and> state e \<noteq> InitExpression
      then (Some (UnexpectedState (state e) [FunctionBody, InitExpression]), e)
      else
        (let e = e\<lparr>buffer := writeByte (op_code opInfo) (buffer e),
                      endWritten := (op_code opInfo = OperatorCode_end)\<rparr>
         in case writeOperator_immediates opInfo (buffer e) of
              (err, buf) \<Rightarrow> (err, e\<lparr>buffer := buf\<rparr>)))"

definition writeMemorySectionEntry :: "MemoryType \<Rightarrow> Emitter \<Rightarrow> EmitterResult" where
  "writeMemorySectionEntry entry e =
     (if state e \<noteq> MemorySection then (Some (UnexpectedState (state e) [MemorySection]), e)
      else (None, e\<lparr>sectionEntiesCount := sectionEntiesCount e + 1,
                     buffer := writeMemoryType entry (buffer e)\<rparr>))"

definition isSectionState :: "EmitterState \<Rightarrow> bool" where
  "isSectionState s \<longleftrightarrow> s \<in> set
     [TypeSection, ImportSection, FunctionSection, ExportSection, CodeSection, MemorySection,
      GlobalSection, DataSection]"

definition writeEndSection :: "Emitter \<Rightarrow> EmitterResult" where
  "writeEndSection e =
     (if isSectionState (state e) then
        (let e = e\<lparr>buffer := patchVarUint32 (sectionEntiesCountBytes e)
                                (int (sectionEntiesCount e)) (buffer e)\<rparr>;
             sectionLength = int (position e) - int (sectionStart e)
         in (None, e\<lparr>buffer := patchVarUint32 (sectionSizeBytes e) sectionLength (buffer e),
                       state := Wasm\<rparr>))
      else (Some (UnexpectedState (state e) []), e))"

fun writeStateAndResult :: "ReaderEvent \<Rightarrow> Emitter \<Rightarrow> EmitterResult" where
  "writeStateAndResult (BEGIN_WASM result) e = writeBeginWasm result e"
| "writeStateAndResult END_WASM e = writeEndWasm e"
| "writeStateAndResult (BEGIN_SECTION result) e = writeBeginSection result e"
| "writeStateAndResult END_SECTION e = writeEndSection e"
| "writeStateAndResult (TYPE_SECTION_ENTRY result) e = writeTypeSectionEntry result e"
| "writeStateAndResult (IMPORT_SECTION_ENTRY result) e = writeImportSectionEntry result e"
| "writeStateAndResult (FUNCTION_SECTION_ENTRY result) e = writeFunctionSectionEntry result e"
| "writeStateAndResult (EXPORT_SECTION_ENTRY result) e = writeExportSectionEntry result e"
| "writeStateAndResult (BEGIN_FUNCTION_BODY result) e = writeBeginFunctionBody result e"
| "writeStateAndResult END_FUNCTION_BODY e = writeEndFunctionBody e"
| "writeStateAndResult (MEMORY_SECTION_ENTRY result) e = writeMemorySectionEntry result e"
| "writeStateAndResult (INIT_EXPRESSION_OPERATOR result) e = writeOperator result e"
| "writeStateAndResult (CODE_OPERATOR result) e = writeOperator result e"
| "writeStateAndResult (BEGIN_DATA_SECTION_ENTRY result) e = writeBeginDataSectionEntry result e"
| "writeStateAndResult (DATA_SECTION_ENTRY_BODY result) e = writeDataSectionBody result e"
| "writeStateAndResult END_DATA_SECTION_ENTRY e = writeEndDataSectionEntry e"
| "writeStateAndResult BEGIN_INIT_EXPRESSION_BODY e = writeBeginInitExpression e"
| "writeStateAndResult END_INIT_EXPRESSION_BODY e = writeEndInitExpression e"
| "writeStateAndResult _ e = (Some InvalidState, e)"

text \<open>
  The caller's loop, \<open>emitter.write(reader)\<close> once for each event: the first error ends it,
  as the exception leaves the loop.
\<close>

fun writeEvents :: "ReaderEvent list \<Rightarrow> Emitter \<Rightarrow> EmitterResult" where
  "writeEvents [] e = (None, e)"
| "writeEvents (ev # evs) e =
     (case writeStateAndResult ev e of
        (None, e') \<Rightarrow> writeEvents evs e'
      | (Some err, e') \<Rightarrow> (Some err, e'))"

section \<open>The disassembler\<close>

subsection \<open>Numbers and bytes as text\<close>

text \<open>
  \<open>natToString\<close> is the decimal text that a template literal gives a non-negative
  integer, \<open>intToString\<close> that of any integer, and \<open>natToHex\<close> is \<open>toString(16)\<close>.
\<close>

definition digitChar :: "nat \<Rightarrow> char" where
  "digitChar n = ''0123456789abcdef'' ! (n mod 16)"

fun natToString :: "nat \<Rightarrow> string" where
  "natToString n =
     (if n < 10 then [digitChar n] else natToString (n div 10) @ [digitChar (n mod 10)])"

fun natToHex :: "nat \<Rightarrow> string" where
  "natToHex n =
     (if n < 16 then [digitChar n] else natToHex (n div 16) @ [digitChar (n mod 16)])"

definition intToString :: "int \<Rightarrow> string" where
  "intToString i = (if i < 0 then ''-'' @ natToString (nat (- i)) else natToString (nat i))"

definition u32ToString :: "u32 \<Rightarrow> string" where
  "u32ToString n = natToString (unat n)"

definition binToString :: "byte list \<Rightarrow> string" where
  "binToString b =
     concat (map (\<lambda>byte.
       if byte < 0x20 \<or> byte \<ge> 0x7F \<or> byte = 0x22 \<or> byte = 0x5c
       then [CHR 0x5C] @ natToHex (unat (drop_bit 4 byte)) @ natToHex (unat (byte AND 15))
       else [char_of (unat byte)]) b)"

subsection \<open>Errors\<close>

text \<open>
  \<open>ReaderError\<close> is the reader's own error, thrown again; \<open>DisTypeError\<close> is the
  JavaScript error for a property of \<open>undefined\<close> or \<open>null\<close>; \<open>DisCastMismatch\<close>
  marks, as in the emitter, a payload outside the typed data model.
\<close>

datatype DisError =
  ReaderError string
  | UnexpectedType
  | NYIFunctionForm
  | UnsupportedExport byte
  | NYIImportType byte
  | UnexpectedReaderState
  | DisTypeError
  | DisCastMismatch

definition bindE :: "'e + 'a \<Rightarrow> ('a \<Rightarrow> 'e + 'b) \<Rightarrow> 'e + 'b" where
  "bindE m f = (case m of Inl e \<Rightarrow> Inl e | Inr x \<Rightarrow> f x)"

fun mapE :: "('a \<Rightarrow> 'e + 'b) \<Rightarrow> 'a list \<Rightarrow> 'e + 'b list" where
  "mapE f [] = Inr []"
| "mapE f (x # xs) = bindE (f x) (\<lambda>y. bindE (mapE f xs) (\<lambda>ys. Inr (y # ys)))"

subsection \<open>The printing functions\<close>

definition typeToString :: "int \<Rightarrow> DisError + string" where
  "typeToString type =
     (if type = Type_i32 then Inr ''i32''
      else if type = Type_i64 then Inr ''i64''
      else if type = Type_f32 then Inr ''f32''
      else if type = Type_f64 then Inr ''f64''
      else if type = Type_anyfunc then Inr ''anyfunc''
      else Inl UnexpectedType)"

text \<open>
  The parts of the disassembler that the sources do not hold, or that are floating-point
  arithmetic, are parameters: the table \<open>OperatorCodeNames\<close> of WasmParser.ts, the text
  that \<open>Number.prototype.toString\<close> gives a finite non-zero float (given here by the
  float's bit pattern), and the text of \<open>Int64.toDouble()\<close>.
\<close>

record Externals =
  OperatorCodeNames :: "byte \<Rightarrow> string option"
  float32ToString :: "32 word \<Rightarrow> string"
  float64ToString :: "64 word \<Rightarrow> string"
  int64ToDoubleString :: "byte list \<Rightarrow> string"

text \<open>
  A float literal is its bit pattern: \<open>n === 0\<close> holds when all bits but the sign are 0,
  \<open>1 / n < 0\<close> and \<open>n < 0\<close> read the sign bit, \<open>isFinite\<close> and \<open>isNaN\<close> read the
  exponent and the mantissa, and \<open>data\<close> is the pattern read as a signed integer.
\<close>

definition formatFloat32 :: "Externals \<Rightarrow> 32 word \<Rightarrow> string" where
  "formatFloat32 X n =
     (if n AND 0x7FFFFFFF = 0 then (if bit n 31 then ''-0.0'' else ''0.0'')
      else if drop_bit 23 n AND 0xFF \<noteq> 0xFF then float32ToString X n
      else if n AND 0x7FFFFF = 0 then (if bit n 31 then ''-infinity'' else ''infinity'')
      else
        (let data = sint n;
             payload = unat (n AND 0x7FFFFF);
             canonicalBits = 4194304
         in if data > 0 \<and> payload = canonicalBits then ''nan''
            else if payload = canonicalBits then ''-nan''
            else (if data < 0 then ''-'' else ''+'') @ ''nan:0x'' @ natToHex payload))"

definition formatFloat64 :: "Externals \<Rightarrow> 64 word \<Rightarrow> string" where
  "formatFloat64 X n =
     (if n AND 0x7FFFFFFFFFFFFFFF = 0 then (if bit n 63 then ''-0.0'' else ''0.0'')
      else if drop_bit 52 n AND 0x7FF \<noteq> 0x7FF then float64ToString X n
      else if n AND 0xFFFFFFFFFFFFF = 0 then (if bit n 63 then ''-infinity'' else ''infinity'')
      else
        (let data1 = unat (ucast n :: 32 word);
             data2 = (ucast (drop_bit 32 n) :: 32 word);
             payload = data1 + unat (data2 AND 0xFFFFF) * 4294967296;
             canonicalBits = 524288 * 4294967296
         in if sint data2 > 0 \<and> payload = canonicalBits then ''nan''
            else if payload = canonicalBits then ''-nan''
            else (if sint data2 < 0 then ''-'' else ''+'') @ ''nan:0x'' @ natToHex payload))"

text \<open>
  \<open>1 << address.flags\<close> shifts by the low five bits of the count and gives a signed
  32-bit integer.
\<close>

definition shiftLeftOne :: "u32 \<Rightarrow> int" where
  "shiftLeftOne flags = sint (push_bit (unat (flags AND 31)) (1 :: 32 word))"

text \<open>
  The first \<open>switch\<close> of \<open>memoryAddressToString\<close>; an opcode that no \<open>case\<close> names
  leaves \<open>defaultAlignFlags\<close> \<open>undefined\<close>, which equals no flags.
\<close>

definition defaultAlignFlags :: "byte \<Rightarrow> u32 option" where
  "defaultAlignFlags code =
     (if code = OperatorCode_i64_load \<or> code = OperatorCode_i64_store then Some 3
      else if code = OperatorCode_i32_load \<or> code = OperatorCode_i64_load32_s
              \<or> code = OperatorCode_i64_load32_u \<or> code = OperatorCode_i32_store
              \<or> code = OperatorCode_i64_store32 then Some 2
      else if code = OperatorCode_i32_load16_s \<or> code = OperatorCode_i32_load16_u
              \<or> code = OperatorCode_i64_load16_s \<or> code = OperatorCode_i64_load16_u
              \<or> code = OperatorCode_i32_store16 \<or> code = OperatorCode_i64_store16 then Some 1
      else if code = OperatorCode_i32_load8_s \<or> code = OperatorCode_i32_load8_u
              \<or> code = OperatorCode_i64_load8_s \<or> code = OperatorCode_i64_load8_u
              \<or> code = OperatorCode_i32_store8 \<or> code = OperatorCode_i64_store8 then Some 0
      else None)"

definition memoryAddressToString :: "MemoryAddress \<Rightarrow> byte \<Rightarrow> string" where
  "memoryAddressToString address code =
     (if Some (ma_flags address) = defaultAlignFlags code
      then ''offset='' @ u32ToString (ma_offset address)
      else if ma_offset address = 0
      then ''align='' @ intToString (shiftLeftOne (ma_flags address))
      else ''offset='' @ u32ToString (ma_offset address)
           @ '' align='' @ intToString (shiftLeftOne (ma_flags address)))"

definition globalTypeToString :: "GlobalType \<Rightarrow> DisError + string" where
  "globalTypeToString type =
     (if gt_mutability type = 0 then typeToString (gt_contentType type)
      else bindE (typeToString (gt_contentType type)) (\<lambda>t. Inr (''(mut '' @ t @ '')'')))"

definition limitsToString :: "ResizableLimits \<Rightarrow> string" where
  "limitsToString limits =
     u32ToString (lim_initial limits)
     @ (case lim_maximum limits of Some m \<Rightarrow> '' '' @ u32ToString m | None \<Rightarrow> [])"

definition IndentIncrement :: string where
  "IndentIncrement = ''  ''"

text \<open>
  The buffer of the disassembler is the array of text fragments, joined at the end.
  \<open>_indent\<close> starts as \<open>null\<close>, which is \<open>None\<close>.
\<close>

record WasmDisassembler =
  dis_buffer :: "string list"
  dis_types :: "FunctionType list"
  dis_funcIndex :: nat
  dis_funcTypes :: "u32 list"
  dis_importCount :: nat
  dis_globalCount :: nat
  dis_tableCount :: nat
  dis_indent :: "string option"
  dis_indentLevel :: int

definition WasmDisassembler_new :: WasmDisassembler where
  "WasmDisassembler_new = \<lparr> dis_buffer = [], dis_types = [], dis_funcIndex = 0,
     dis_funcTypes = [], dis_importCount = 0, dis_globalCount = 0, dis_tableCount = 0,
     dis_indent = None, dis_indentLevel = 0 \<rparr>"

definition push :: "string list \<Rightarrow> WasmDisassembler \<Rightarrow> WasmDisassembler" where
  "push fragments d = d\<lparr>dis_buffer := dis_buffer d @ fragments\<rparr>"

definition printFuncType :: "FunctionType \<Rightarrow> bool \<Rightarrow> DisError + string" where
  "printFuncType type printVars =
     bindE
       (if printVars then
          mapE (\<lambda>i. bindE (typeToString (ft_params type ! i))
                       (\<lambda>t. Inr ('' (param $var'' @ natToString i @ '' '' @ t @ '')'')))
            [0..<length (ft_params type)]
        else if length (ft_params type) > 0 then
          bindE (mapE (\<lambda>i. bindE (typeToString (ft_params type ! i)) (\<lambda>t. Inr ('' '' @ t)))
                   [0..<length (ft_params type)])
            (\<lambda>ps. Inr (['' (param''] @ ps @ ['')'']))
        else Inr [])
       (\<lambda>params.
          bindE (mapE (\<lambda>i. bindE (typeToString (ft_returns type ! i))
                              (\<lambda>t. Inr ('' (result '' @ t @ '')'')))
                   [0..<length (ft_returns type)])
            (\<lambda>returns. Inr (concat (params @ returns))))"

text \<open>
  \<open>this._types[typeIndex]\<close> is \<open>undefined\<close> when the index is absent or beyond the
  table, and reading a property of it is then a TypeError.
\<close>

definition lookupType :: "WasmDisassembler \<Rightarrow> nat option \<Rightarrow> FunctionType option" where
  "lookupType d typeIndex =
     (case typeIndex of
        None \<Rightarrow> None
      | Some i \<Rightarrow> if i < length (dis_types d) then Some (dis_types d ! i) else None)"

definition printType :: "WasmDisassembler \<Rightarrow> nat option \<Rightarrow> DisError + string" where
  "printType d typeIndex =
     (case lookupType d typeIndex of
        None \<Rightarrow> Inl DisTypeError
      | Some type \<Rightarrow>
          if ft_form type \<noteq> Type_func then Inl NYIFunctionForm
          else bindE (printFuncType type False) (\<lambda>s. Inr (''(func'' @ s @ '')'')))"

text \<open>\<open>null + '  '\<close> is the text \<open>null\<close> followed by the increment; \<open>null.slice\<close> throws.\<close>

definition increaseIndent :: "WasmDisassembler \<Rightarrow> WasmDisassembler" where
  "increaseIndent d =
     d\<lparr>dis_indent := Some ((case dis_indent d of None \<Rightarrow> ''null'' | Some s \<Rightarrow> s) @ IndentIncrement),
       dis_indentLevel := dis_indentLevel d + 1\<rparr>"

definition decreaseIndent :: "WasmDisassembler \<Rightarrow> DisError option \<times> WasmDisassembler" where
  "decreaseIndent d =
     (case dis_indent d of
        None \<Rightarrow> (Some DisTypeError, d)
      | Some s \<Rightarrow>
          (None, d\<lparr>dis_indent := Some (take (length s - length IndentIncrement) s),
                   dis_indentLevel := dis_indentLevel d - 1\<rparr>))"

subsection \<open>Operators\<close>

text \<open>
  The two \<open>replace\<close> calls on the operator name: the pattern \<open>/^([if](32|64))_/\<close> turns a
  leading \<open>i32_\<close> into \<open>i32.\<close>, and \<open>/_([if](32|64))$/\<close> turns a trailing \<open>_f32\<close>
  into \<open>/f32\<close>.
\<close>

definition isNumericTypeName :: "string \<Rightarrow> bool" where
  "isNumericTypeName t \<longleftrightarrow> t = ''i32'' \<or> t = ''i64'' \<or> t = ''f32'' \<or> t = ''f64''"

definition replacePrefix :: "string \<Rightarrow> string" where
  "replacePrefix s =
     (if isNumericTypeName (take 3 s) \<and> take 1 (drop 3 s) = ''_''
      then take 3 s @ ''.'' @ drop 4 s else s)"

definition replaceSuffix :: "string \<Rightarrow> string" where
  "replaceSuffix s =
     (let n = length s in
      if 4 \<le> n \<and> take 1 (drop (n - 4) s) = ''_'' \<and> isNumericTypeName (drop (n - 3) s)
      then take (n - 4) s @ ''/'' @ drop (n - 3) s else s)"

definition literalText :: "Externals \<Rightarrow> byte \<Rightarrow> Literal \<Rightarrow> DisError + string list" where
  "literalText X code literal =
     (if code = OperatorCode_i32_const then
        (case literal of I32Literal n \<Rightarrow> Inr ['' '' @ intToString n] | _ \<Rightarrow> Inl DisCastMismatch)
      else if code = OperatorCode_f32_const then
        (case literal of F32Literal n \<Rightarrow> Inr ['' '' @ formatFloat32 X n] | _ \<Rightarrow> Inl DisCastMismatch)
      else if code = OperatorCode_f64_const then
        (case literal of F64Literal n \<Rightarrow> Inr ['' '' @ formatFloat64 X n] | _ \<Rightarrow> Inl DisCastMismatch)
      else if code = OperatorCode_i64_const then
        (case literal of I64Literal n \<Rightarrow> Inr ['' '' @ int64ToDoubleString X n] | _ \<Rightarrow> Inl DisTypeError)
      else Inr [])"

text \<open>
  The \<open>case\<close> of \<open>INIT_EXPRESSION_OPERATOR\<close> and \<open>CODE_OPERATOR\<close>. A \<open>null\<close> indent
  that is pushed joins as the empty text.
\<close>

definition disassemble_operator ::
  "Externals \<Rightarrow> OperatorInformation \<Rightarrow> WasmDisassembler \<Rightarrow> DisError option \<times> WasmDisassembler" where
  "disassemble_operator X operator d =
     (let code = op_code operator in
      if code = OperatorCode_end \<and> dis_indentLevel d = 0 then (None, d)
      else
        (case (if code = OperatorCode_end \<or> code = OperatorCode_else
               then decreaseIndent d else (None, d)) of
           (Some err, d) \<Rightarrow> (Some err, d)
         | (None, d) \<Rightarrow>
             (case OperatorCodeNames X code of
                None \<Rightarrow> (Some DisTypeError, d)
              | Some name \<Rightarrow>
                  (case (case op_blockType operator of
                           None \<Rightarrow> Inr (replaceSuffix (replacePrefix name))
                         | Some blockType \<Rightarrow>
                             if blockType \<noteq> Type_empty_block_type
                             then bindE (typeToString blockType)
                                    (\<lambda>t. Inr (replaceSuffix (replacePrefix name) @ '' '' @ t))
                             else Inr (replaceSuffix (replacePrefix name))) of
                     Inl err \<Rightarrow> (Some err, d)
                   | Inr str \<Rightarrow>
                       (let d = push [case dis_indent d of None \<Rightarrow> [] | Some s \<Rightarrow> s, str] d;
                            d = (case op_localIndex operator of
                                   None \<Rightarrow> d | Some i \<Rightarrow> push ['' $var'' @ u32ToString i] d);
                            d = (case op_funcIndex operator of
                                   None \<Rightarrow> d | Some i \<Rightarrow> push ['' $func'' @ u32ToString i] d);
                            d = (case op_typeIndex operator of
                                   None \<Rightarrow> d | Some i \<Rightarrow> push ['' $type'' @ u32ToString i] d)
                        in
                          (case (case op_literal operator of
                                   None \<Rightarrow> Inr []
                                 | Some literal \<Rightarrow> literalText X code literal) of
                             Inl err \<Rightarrow> (Some err, d)
                           | Inr fragments \<Rightarrow>
                               (let d = push fragments d;
                                    d = (case op_memoryAddress operator of
                                           None \<Rightarrow> d
                                         | Some a \<Rightarrow> push ['' '' @ memoryAddressToString a code] d);
                                    d = (case op_brDepth operator of
                                           None \<Rightarrow> d | Some n \<Rightarrow> push ['' '' @ u32ToString n] d);
                                    d = (case op_brTable operator of
                                           None \<Rightarrow> d
                                         | Some brTable \<Rightarrow>
                                             push (map (\<lambda>i. '' '' @ u32ToString (brTable ! i))
                                                     [0..<length brTable]) d);
                                    d = (case op_globalIndex operator of
                                           None \<Rightarrow> d | Some i \<Rightarrow> push ['' $global'' @ u32ToString i] d);
                                    d = push [''\<newline>''] d
                                in
                                  if code = OperatorCode_if \<or> code = OperatorCode_block
                                     \<or> code = OperatorCode_loop \<or> code = OperatorCode_else
                                  then (None, increaseIndent d) else (None, d))))))))"

subsection \<open>The reader\<close>

text \<open>
  Modelled from the spec: the class \<open>BinaryReader\<close> of WasmParser.ts is not among the
  sources. The disassembler takes a reader as the operations that the spec lists for it
  (section 6.1): \<open>read()\<close>, which advances and answers false when more bytes are needed,
  the current state with its result, \<open>hasMoreBytes()\<close> and \<open>skipSection()\<close>, over a
  reader state of any type.
\<close>

record 'r BinaryReader =
  rd_read :: "'r \<Rightarrow> bool \<times> 'r"
  rd_state :: "'r \<Rightarrow> ReaderEvent"
  rd_hasMoreBytes :: "'r \<Rightarrow> bool"
  rd_skipSection :: "'r \<Rightarrow> 'r"

subsection \<open>The loop of \<open>disassemble\<close>\<close>

datatype SwitchResult = Break | Return string | Throw DisError

definition afterPush :: "'r \<Rightarrow> DisError option \<times> WasmDisassembler \<Rightarrow> SwitchResult \<times> 'r \<times> WasmDisassembler" where
  "afterPush r res = (case res of (None, d) \<Rightarrow> (Break, r, d) | (Some err, d) \<Rightarrow> (Throw err, r, d))"

definition isKnownSection :: "u32 \<Rightarrow> bool" where
  "isKnownSection sid \<longleftrightarrow> sid \<in> set
     [SectionCode_Type, SectionCode_Import, SectionCode_Export, SectionCode_Global,
      SectionCode_Function, SectionCode_Code, SectionCode_Memory, SectionCode_Data,
      SectionCode_Table, SectionCode_Element]"

text \<open>
  The declared locals of a function body, one line for each slot; a type that
  \<open>typeToString\<close> rejects ends the loop with the lines pushed so far.
\<close>

fun printLocals :: "Locals list \<Rightarrow> nat \<Rightarrow> DisError option \<times> string list" where
  "printLocals [] localIndex = (None, [])"
| "printLocals (l # ls) localIndex =
     (if loc_count l = 0 then printLocals ls localIndex
      else
        (case typeToString (loc_type l) of
           Inl err \<Rightarrow> (Some err, [])
         | Inr t \<Rightarrow>
             (case printLocals ls (localIndex + unat (loc_count l)) of
                (err, rest) \<Rightarrow>
                  (err, map (\<lambda>i. ''    (local $var'' @ natToString (localIndex + i) @ '' '' @ t
                                    @ '')\<newline>'')
                          [0..<unat (loc_count l)] @ rest))))"

definition disassemble_import :: "ImportEntry \<Rightarrow> WasmDisassembler \<Rightarrow> DisError option \<times> WasmDisassembler" where
  \<open>disassemble_import importInfo d =
     (let importSource = ''"'' @ binToString (imp_module importInfo) @ ''" "''
                         @ binToString (imp_field importInfo) @ ''"''
      in
        if imp_kind importInfo = ExternalKind_Function then
          (let n = dis_importCount d; d = d\<lparr>dis_importCount := n + 1\<rparr>
           in case printType d (map_option unat (imp_funcTypeIndex importInfo)) of
                Inl err \<Rightarrow> (Some err, d)
              | Inr t \<Rightarrow> (None, push [''  (import $func'' @ natToString n @ '' '' @ importSource
                                       @ '' '' @ t @ '')\<newline>''] d))
        else if imp_kind importInfo = ExternalKind_Table then
          (let n = dis_tableCount d; d = d\<lparr>dis_tableCount := n + 1\<rparr>
           in case imp_type importInfo of
                None \<Rightarrow> (Some DisTypeError, d)
              | Some (ImportTable tableImportInfo) \<Rightarrow>
                  (case typeToString (tt_elementType tableImportInfo) of
                     Inl err \<Rightarrow> (Some err, d)
                   | Inr t \<Rightarrow> (None, push [''  (import '' @ importSource @ '' (table $table''
                                            @ natToString n @ '' ''
                                            @ limitsToString (tt_limits tableImportInfo)
                                            @ '' '' @ t @ ''))\<newline>''] d))
              | Some _ \<Rightarrow> (Some DisCastMismatch, d))
        else if imp_kind importInfo = ExternalKind_Memory then
          (case imp_type importInfo of
             None \<Rightarrow> (Some DisTypeError, d)
           | Some (ImportMemory memoryImportInfo) \<Rightarrow>
               (None, push [''  (import '' @ importSource @ '' (memory ''
                            @ limitsToString (mt_limits memoryImportInfo) @ ''))\<newline>''] d)
           | Some _ \<Rightarrow> (Some DisCastMismatch, d))
        else if imp_kind importInfo = ExternalKind_Global then
          (let n = dis_globalCount d; d = d\<lparr>dis_globalCount := n + 1\<rparr>
           in case imp_type importInfo of
                None \<Rightarrow> (Some DisTypeError, d)
              | Some (ImportGlobal globalImportInfo) \<Rightarrow>
                  (case globalTypeToString globalImportInfo of
                     Inl err \<Rightarrow> (Some err, d)
                   | Inr t \<Rightarrow> (None, push [''  (import '' @ importSource @ '' (global $global''
                                            @ natToString n @ '' '' @ t @ ''))\<newline>''] d))
              | Some _ \<Rightarrow> (Some DisCastMismatch, d))
        else (Some (NYIImportType (imp_kind importInfo)), d))\<close>

definition disassemble_export :: "ExportEntry \<Rightarrow> WasmDisassembler \<Rightarrow> DisError option \<times> WasmDisassembler" where
  \<open>disassemble_export exportInfo d =
     (let d = push [''  (export "'' @ binToString (exp_field exportInfo) @ ''" ''] d in
      if exp_kind exportInfo = ExternalKind_Function then
        (None, push ['')\<newline>''] (push [''$func'' @ u32ToString (exp_index exportInfo)] d))
      else if exp_kind exportInfo = ExternalKind_Table then
        (None, push ['')\<newline>'']
                 (push [''(table $table'' @ u32ToString (exp_index exportInfo) @ '')''] d))
      else if exp_kind exportInfo = ExternalKind_Memory then
        (None, push ['')\<newline>''] (push [''memory''] d))
      else if exp_kind exportInfo = ExternalKind_Global then
        (None, push ['')\<newline>'']
                 (push [''(global $global'' @ u32ToString (exp_index exportInfo) @ '')''] d))
      else (Some (UnsupportedExport (exp_kind exportInfo)), d))\<close>

definition disassemble_beginFunctionBody ::
  "FunctionInformation \<Rightarrow> WasmDisassembler \<Rightarrow> DisError option \<times> WasmDisassembler" where
  "disassemble_beginFunctionBody func d =
     (case lookupType d
             (if dis_funcIndex d < length (dis_funcTypes d)
              then Some (unat (dis_funcTypes d ! dis_funcIndex d)) else None) of
        None \<Rightarrow> (Some DisTypeError, d)
      | Some type \<Rightarrow>
          (let printIndex = dis_funcIndex d + dis_importCount d in
           case printFuncType type True of
             Inl err \<Rightarrow> (Some err, d)
           | Inr sig \<Rightarrow>
               (let d = push [''  (func $func'' @ natToString printIndex @ sig @ ''\<newline>''] d in
                case printLocals (fi_locals func) (length (ft_params type)) of
                  (Some err, fragments) \<Rightarrow> (Some err, push fragments d)
                | (None, fragments) \<Rightarrow>
                    (None, (push fragments d)\<lparr>dis_funcIndex := dis_funcIndex d + 1,
                             dis_indent := Some ''    '', dis_indentLevel := 0\<rparr>))))"

text \<open>The \<open>switch\<close> over \<open>reader.state\<close>, one equation for each \<open>case\<close>.\<close>

fun disassemble_case ::
  "Externals \<Rightarrow> 'r BinaryReader \<Rightarrow> 'r \<Rightarrow> WasmDisassembler \<Rightarrow> ReaderEvent
   \<Rightarrow> SwitchResult \<times> 'r \<times> WasmDisassembler" where
  "disassemble_case X R r d END_WASM =
     (let d = push ['')\<newline>''] d in
      if \<not> rd_hasMoreBytes R r
      then (Return (concat (dis_buffer d)), r, d\<lparr>dis_buffer := []\<rparr>)
      else (Break, r, d))"
| "disassemble_case X R r d (ERROR error) = (Throw (ReaderError error), r, d)"
| "disassemble_case X R r d (BEGIN_WASM header) = (Break, r, push [''(module\<newline>''] d)"
| "disassemble_case X R r d END_SECTION = (Break, r, d)"
| "disassemble_case X R r d (BEGIN_SECTION sectionInfo) =
     (if isKnownSection (sec_id sectionInfo) then (Break, r, d)
      else (Break, rd_skipSection R r, d))"
| "disassemble_case X R r d (MEMORY_SECTION_ENTRY memoryInfo) =
     (let d = push [''  (memory '' @ u32ToString (lim_initial (mt_limits memoryInfo))] d;
          d = (case lim_maximum (mt_limits memoryInfo) of
                 None \<Rightarrow> d | Some m \<Rightarrow> push ['' '' @ u32ToString m] d)
      in (Break, r, push ['')\<newline>''] d))"
| "disassemble_case X R r d (TABLE_SECTION_ENTRY tableInfo) =
     (let n = dis_tableCount d; d = d\<lparr>dis_tableCount := n + 1\<rparr>
      in case typeToString (tt_elementType tableInfo) of
           Inl err \<Rightarrow> (Throw err, r, d)
         | Inr t \<Rightarrow> (Break, r, push [''  (table $table'' @ natToString n @ '' ''
                                      @ limitsToString (tt_limits tableInfo) @ '' '' @ t
                                      @ '')\<newline>''] d))"
| "disassemble_case X R r d (EXPORT_SECTION_ENTRY exportInfo) =
     afterPush r (disassemble_export exportInfo d)"
| "disassemble_case X R r d (IMPORT_SECTION_ENTRY importInfo) =
     afterPush r (disassemble_import importInfo d)"
| "disassemble_case X R r d (BEGIN_ELEMENT_SECTION_ENTRY elementSegmentInfo) =
     (Break, r, push [''  (elem\<newline>''] d)"
| "disassemble_case X R r d END_ELEMENT_SECTION_ENTRY = (Break, r, push [''  )\<newline>''] d)"
| "disassemble_case X R r d (ELEMENT_SECTION_ENTRY_BODY elementSegmentBody) =
     (let d = push [''   ''] d;
          d = push (map (\<lambda>funcIndex. '' $func'' @ u32ToString funcIndex)
                      (esb_elements elementSegmentBody)) d
      in (Break, r, push [''\<newline>''] d))"
| "disassemble_case X R r d (BEGIN_GLOBAL_SECTION_ENTRY globalInfo) =
     (let n = dis_globalCount d; d = d\<lparr>dis_globalCount := n + 1\<rparr>
      in case globalTypeToString (gv_type globalInfo) of
           Inl err \<Rightarrow> (Throw err, r, d)
         | Inr t \<Rightarrow> (Break, r, push [''  (global $global'' @ natToString n @ '' '' @ t
                                      @ ''\<newline>''] d))"
| "disassemble_case X R r d END_GLOBAL_SECTION_ENTRY = (Break, r, push [''  )\<newline>''] d)"
| "disassemble_case X R r d (TYPE_SECTION_ENTRY funcType) =
     (let typeIndex = length (dis_types d);
          d = d\<lparr>dis_types := dis_types d @ [funcType]\<rparr>
      in case printType d (Some typeIndex) of
           Inl err \<Rightarrow> (Throw err, r, d)
         | Inr t \<Rightarrow> (Break, r, push [''  (type $type'' @ natToString typeIndex @ '' '' @ t
                                      @ '')\<newline>''] d))"
| "disassemble_case X R r d (BEGIN_DATA_SECTION_ENTRY dataSegment) =
     (Break, r, push [''  (data\<newline>''] d)"
| \<open>disassemble_case X R r d (DATA_SECTION_ENTRY_BODY body) =
     (Break, r, push [''    "'' @ binToString (dsb_data body) @ ''"\<newline>''] d)\<close>
| "disassemble_case X R r d END_DATA_SECTION_ENTRY = (Break, r, push [''  )\<newline>''] d)"
| "disassemble_case X R r d BEGIN_INIT_EXPRESSION_BODY =
     (Break, r, push [''    (\<newline>''] (d\<lparr>dis_indent := Some ''      '', dis_indentLevel := 0\<rparr>))"
| "disassemble_case X R r d END_INIT_EXPRESSION_BODY = (Break, r, push [''    )\<newline>''] d)"
| "disassemble_case X R r d (FUNCTION_SECTION_ENTRY entry) =
     (Break, r, d\<lparr>dis_funcTypes := dis_funcTypes d @ [fe_typeIndex entry]\<rparr>)"
| "disassemble_case X R r d (BEGIN_FUNCTION_BODY func) =
     afterPush r (disassemble_beginFunctionBody func d)"
| "disassemble_case X R r d (INIT_EXPRESSION_OPERATOR operator) =
     afterPush r (disassemble_operator X operator d)"
| "disassemble_case X R r d (CODE_OPERATOR operator) =
     afterPush r (disassemble_operator X operator d)"
| "disassemble_case X R r d END_FUNCTION_BODY = (Break, r, push [''  )\<newline>''] d)"
| "disassemble_case X R r d (OTHER_STATE s) = (Throw UnexpectedReaderState, r, d)"

text \<open>
  What a call of \<open>disassemble\<close> gives its caller: the text, \<open>null\<close>, or an exception.
\<close>

datatype DisassembleResult = Text string | Null | Exception DisError

text \<open>
  \<open>while (true)\<close> ends only when the reader lets it, so \<open>disassemble\<close> is a partial
  function: \<open>None\<close> is a call that does not return, and \<open>Some\<close> holds the result with
  the reader and the disassembler as the call leaves them.
\<close>

partial_function (option) disassemble ::
  "Externals \<Rightarrow> 'r BinaryReader \<Rightarrow> 'r \<Rightarrow> WasmDisassembler
   \<Rightarrow> (DisassembleResult \<times> 'r \<times> WasmDisassembler) option" where
  "disassemble X R r d =
     (case rd_read R r of
        (advanced, r) \<Rightarrow>
          if \<not> advanced then Some (Null, r, d)
          else
            (case disassemble_case X R r d (rd_state R r) of
               (Break, r, d) \<Rightarrow> disassemble X R r d
             | (Return result, r, d) \<Rightarrow> Some (Text result, r, d)
             | (Throw err, r, d) \<Rightarrow> Some (Exception err, r, d)))"

subsection \<open>A reader that plays a script\<close>

text \<open>
  Modelled from the spec: a reader given by the answers it makes, for stating what the
  disassembler does on a sequence of events. A step of the script is either a \<open>read()\<close>
  that answers false (\<open>NeedMoreBytes\<close>), or a \<open>read()\<close> that answers true and brings the
  reader to an event, with the answer that \<open>hasMoreBytes()\<close> gives there. When the script
  is used up, \<open>read()\<close> answers false. \<open>skipSection()\<close> leaves the script as it is: the
  script already is what the reader goes on to deliver.
\<close>

datatype ScriptStep = NeedMoreBytes | Deliver ReaderEvent bool

record ScriptReader =
  sr_script :: "ScriptStep list"
  sr_state :: ReaderEvent
  sr_hasMoreBytes :: bool

fun script_read :: "ScriptReader \<Rightarrow> bool \<times> ScriptReader" where
  "script_read r =
     (case sr_script r of
        [] \<Rightarrow> (False, r)
      | NeedMoreBytes # rest \<Rightarrow> (False, r\<lparr>sr_script := rest\<rparr>)
      | Deliver ev answer # rest \<Rightarrow>
          (True, \<lparr>sr_script = rest, sr_state = ev, sr_hasMoreBytes = answer\<rparr>))"

definition scriptReader :: "ScriptReader BinaryReader" where
  "scriptReader = \<lparr> rd_read = script_read, rd_state = sr_state,
     rd_hasMoreBytes = sr_hasMoreBytes, rd_skipSection = (\<lambda>r. r) \<rparr>"

definition startReader :: "ScriptStep list \<Rightarrow> ScriptReader" where
  "startReader script = \<lparr> sr_script = script, sr_state = OTHER_STATE 0, sr_hasMoreBytes = script \<noteq> [] \<rparr>"

section \<open>Notions for stating the properties\<close>

text \<open>
  The value that a decoder of the binary format reads from a five-byte slot at \<open>pos\<close>:
  unsigned LEB128 of exactly five bytes, the first four with the continuation bit and the
  fifth without it. \<open>None\<close> when the bytes at \<open>pos\<close> are not such a slot.
\<close>

definition readPatchedVarUint32 :: "byte list \<Rightarrow> nat \<Rightarrow> nat option" where
  "readPatchedVarUint32 buf pos =
     (if pos + 5 \<le> length buf
         \<and> bit (buf ! pos) 7 \<and> bit (buf ! (pos + 1)) 7 \<and> bit (buf ! (pos + 2)) 7
         \<and> bit (buf ! (pos + 3)) 7 \<and> \<not> bit (buf ! (pos + 4)) 7
      then Some (unat (buf ! pos AND 0x7F)
                 + 2 ^ 7 * unat (buf ! (pos + 1) AND 0x7F)
                 + 2 ^ 14 * unat (buf ! (pos + 2) AND 0x7F)
                 + 2 ^ 21 * unat (buf ! (pos + 3) AND 0x7F)
                 + 2 ^ 28 * unat (buf ! (pos + 4) AND 0x7F))
      else None)"

text \<open>
  Unsigned LEB128 as the spec words it (section 4.1 and the glossary), apart from the
  code: the 7-bit groups of the number, least significant first, each in one byte, with the
  high bit set on every byte but the last; 0 is the single byte 00. \<open>unleb128\<close> is the
  reading of such a number from the front of a byte sequence, as a decoder of the binary
  format does it: a byte below 128 ends the number, a byte from 128 on continues it.
\<close>

fun leb128 :: "nat \<Rightarrow> byte list" where
  "leb128 n = (if n < 128 then [of_nat n] else of_nat (128 + n mod 128) # leb128 (n div 128))"

fun unleb128 :: "byte list \<Rightarrow> (nat \<times> byte list) option" where
  "unleb128 [] = None"
| "unleb128 (b # bs) =
     (if unat b < 128 then Some (unat b, bs)
      else (case unleb128 bs of
              None \<Rightarrow> None
            | Some (n, rest) \<Rightarrow> Some (unat b - 128 + 128 * n, rest)))"

text \<open>
  The little-endian bytes of the IEEE-754 encoding of a float, from the bit pattern of the
  encoding: what \<open>setFloat32(0, n, true)\<close> and \<open>setFloat64(0, n, true)\<close> store.
\<close>

definition float32LittleEndian :: "32 word \<Rightarrow> byte list" where
  "float32LittleEndian n = map (\<lambda>i. ucast (drop_bit (8 * i) n)) [0..<4]"

definition float64LittleEndian :: "64 word \<Rightarrow> byte list" where
  "float64LittleEndian n = map (\<lambda>i. ucast (drop_bit (8 * i) n)) [0..<8]"

text \<open>
  The emitter after a sequence of events has been written to a new emitter, whether or not
  some of them threw: the states that an emitter can be in.
\<close>

definition emitterAfter :: "ReaderEvent list \<Rightarrow> Emitter" where
  "emitterAfter evs = foldl (\<lambda>e ev. snd (writeStateAndResult ev e)) Emitter_new evs"

text \<open>The events that are an entry of a section: each raises \<open>_sectionEntiesCount\<close>.\<close>

fun isEntryEvent :: "ReaderEvent \<Rightarrow> bool" where
  "isEntryEvent (TYPE_SECTION_ENTRY result) = True"
| "isEntryEvent (IMPORT_SECTION_ENTRY result) = True"
| "isEntryEvent (FUNCTION_SECTION_ENTRY result) = True"
| "isEntryEvent (EXPORT_SECTION_ENTRY result) = True"
| "isEntryEvent (MEMORY_SECTION_ENTRY result) = True"
| "isEntryEvent (BEGIN_FUNCTION_BODY result) = True"
| "isEntryEvent (BEGIN_DATA_SECTION_ENTRY result) = True"
| "isEntryEvent _ = False"

text \<open>
  The bookmarks of the emitter are sound when, inside a section, the size slot lies just
  before \<open>sectionStart\<close> and the count slot just after it, both within the buffer, with
  at least one byte written after the count slot for each entry counted; when, inside a
  function body, the body-size slot lies just before \<open>bodyStart\<close>, after the count slot
  and within the buffer; and when an init expression returns to the body of a data entry.
\<close>

definition inSection :: "EmitterState \<Rightarrow> bool" where
  "inSection s \<longleftrightarrow> s \<noteq> Initial \<and> s \<noteq> Error \<and> s \<noteq> Wasm"

definition bookmarksSound :: "Emitter \<Rightarrow> bool" where
  "bookmarksSound e \<longleftrightarrow>
     (\<not> inSection (state e)
        \<or> (sectionSizeBytes e + 5 = sectionStart e
            \<and> sectionEntiesCountBytes e = sectionStart e
            \<and> sectionStart e + 5 + sectionEntiesCount e \<le> length (buffer e)))
     \<and> (state e \<noteq> FunctionBody
        \<or> (bodySizeBytes e + 5 = bodyStart e
            \<and> sectionStart e + 5 \<le> bodySizeBytes e
            \<and> bodyStart e \<le> length (buffer e)))
     \<and> (state e \<noteq> InitExpression \<or> initExpressionAfterState e = DataSectionEntryBody)"

section \<open>Properties of the writers\<close>

declare writeVarUint.simps [simp del]
declare writeVarInt_loop.simps [simp del]

lemma writeVarUint_more:
  "n AND NOT 0x7F \<noteq> 0 \<Longrightarrow>
   writeVarUint n buf = writeVarUint (drop_bit 7 n) (buf @ [0x80 OR ucast (n AND 0x7f)])"
  by (subst writeVarUint.simps) (simp add: writeByte_def)

lemma writeVarUint_last:
  "n AND NOT 0x7F = 0 \<Longrightarrow> writeVarUint n buf = buf @ [ucast n]"
  by (subst writeVarUint.simps) (simp add: writeByte_def)

lemma varuint_shift_less:
  fixes n :: u32
  assumes "n AND NOT 0x7F \<noteq> 0"
  shows "unat (drop_bit 7 n) < unat n"
proof -
  have "n \<noteq> 0"
    using assms by auto
  then have "0 < unat n"
    by (simp add: unat_gt_0)
  then have "unat n div 2 ^ 7 < unat n"
    by simp
  then show ?thesis
    by (simp add: drop_bit_eq_div unat_div)
qed

lemma writeVarUint_append: "writeVarUint n buf = buf @ writeVarUint n []"
proof (induction "unat n" arbitrary: n buf rule: less_induct)
  case less
  show ?case
  proof (cases "n AND NOT 0x7F = 0")
    case True
    then show ?thesis
      by (simp add: writeVarUint_last)
  next
    case False
    let ?b = "0x80 OR ucast (n AND 0x7f) :: byte"
    have "writeVarUint n buf = writeVarUint (drop_bit 7 n) (buf @ [?b])"
      using False by (rule writeVarUint_more)
    also have "\<dots> = (buf @ [?b]) @ writeVarUint (drop_bit 7 n) []"
      using less [OF varuint_shift_less [OF False]] .
    also have "\<dots> = buf @ writeVarUint (drop_bit 7 n) [?b]"
      using less [OF varuint_shift_less [OF False], of "[?b]"] by simp
    also have "\<dots> = buf @ writeVarUint n []"
      using writeVarUint_more [OF False, of "[]"] by simp
    finally show ?thesis .
  qed
qed

lemma writeVarUint_nonempty: "writeVarUint n [] \<noteq> []"
proof (cases "n AND NOT 0x7F = 0")
  case True
  then show ?thesis by (simp add: writeVarUint_last)
next
  case False
  show ?thesis
    using writeVarUint_more [OF False, of "[]"] writeVarUint_append [of "drop_bit 7 n" "[_]"]
    by simp
qed

lemma writeVarInt_loop_more:
  "signed_drop_bit 6 n \<noteq> signed_drop_bit 31 n \<Longrightarrow>
   writeVarInt_loop n buf = writeVarInt_loop (signed_drop_bit 7 n) (buf @ [0x80 OR ucast (n AND 0x7f)])"
  by (subst writeVarInt_loop.simps) (simp add: writeByte_def)

lemma writeVarInt_loop_last:
  "signed_drop_bit 6 n = signed_drop_bit 31 n \<Longrightarrow>
   writeVarInt_loop n buf = buf @ [ucast (n AND 0x7f)]"
  by (subst writeVarInt_loop.simps) (simp add: writeByte_def)

lemma varint_shift_less:
  fixes n :: "32 word"
  assumes a: "signed_drop_bit 6 n \<noteq> signed_drop_bit 31 n"
  shows "nat \<bar>sint (signed_drop_bit 7 n)\<bar> < nat \<bar>sint n\<bar>"
proof -
  have "n \<noteq> 0" "n \<noteq> - 1"
    using a by auto
  then have "sint n \<noteq> 0" "sint n \<noteq> - 1"
    by (auto simp: signed_eq_0_iff) (metis sint_n1 signed_word_eqI)
  then have "\<bar>sint n div 2 ^ 7\<bar> < \<bar>sint n\<bar>"
    by (cases "0 \<le> sint n") (simp_all add: abs_if, linarith+)
  then show ?thesis
    by (simp add: sint_signed_drop_bit_eq drop_bit_eq_div)
qed

lemma writeVarInt_loop_append: "writeVarInt_loop n buf = buf @ writeVarInt_loop n []"
proof (induction "nat \<bar>sint n\<bar>" arbitrary: n buf rule: less_induct)
  case less
  show ?case
  proof (cases "signed_drop_bit 6 n = signed_drop_bit 31 n")
    case True
    then show ?thesis
      by (simp add: writeVarInt_loop_last)
  next
    case False
    let ?b = "0x80 OR ucast (n AND 0x7f) :: byte"
    have "writeVarInt_loop n buf = writeVarInt_loop (signed_drop_bit 7 n) (buf @ [?b])"
      using False by (rule writeVarInt_loop_more)
    also have "\<dots> = (buf @ [?b]) @ writeVarInt_loop (signed_drop_bit 7 n) []"
      using less [OF varint_shift_less [OF False]] .
    also have "\<dots> = buf @ writeVarInt_loop (signed_drop_bit 7 n) [?b]"
      using less [OF varint_shift_less [OF False], of "[?b]"] by simp
    also have "\<dots> = buf @ writeVarInt_loop n []"
      using writeVarInt_loop_more [OF False, of "[]"] by simp
    finally show ?thesis .
  qed
qed

lemma writeVarInt_loop_nonempty: "writeVarInt_loop n [] \<noteq> []"
proof (cases "signed_drop_bit 6 n = signed_drop_bit 31 n")
  case True
  then show ?thesis by (simp add: writeVarInt_loop_last)
next
  case False
  show ?thesis
    using writeVarInt_loop_more [OF False, of "[]"]
      writeVarInt_loop_append [of "signed_drop_bit 7 n" "[_]"]
    by simp
qed

lemma writeVarInt_test_invariant:
  "signed_drop_bit 31 (signed_drop_bit 7 n) = signed_drop_bit 31 (n :: 32 word)"
  by (rule bit_word_eqI) (auto simp: bit_signed_drop_bit_iff not_le)

lemma writeVarUint_length: "length buf < length (writeVarUint n buf)"
  using writeVarUint_append [of n buf] writeVarUint_nonempty [of n] by simp

lemma writeVarInt_length: "length buf < length (writeVarInt n buf)"
  using writeVarInt_loop_append [of "word_of_int n" buf] writeVarInt_loop_nonempty [of "word_of_int n"]
  by (simp add: writeVarInt_def)

lemma writeVarUint_opt_length: "length buf < length (writeVarUint_opt n buf)"
  by (cases n) (simp_all add: writeVarUint_opt_def writeByte_def writeVarUint_length)

lemma writeVarInt_opt_length: "length buf < length (writeVarInt_opt n buf)"
  by (cases n) (simp_all add: writeVarInt_opt_def writeVarInt_length)

lemma foldl_length_mono:
  assumes "\<And>x b. length b \<le> length (f b x)"
  shows "length buf \<le> length (foldl f buf xs)"
proof (induction xs arbitrary: buf)
  case Nil
  show ?case by simp
next
  case (Cons x xs)
  show ?case
    using Cons.IH [of "f buf x"] assms [of buf x] by simp
qed

lemma writeBytes_length: "length buf \<le> length (writeBytes bytes start end buf)"
  unfolding writeBytes_def by (rule foldl_length_mono) (simp add: writeByte_def)

lemma writeString_length: "length buf < length (writeString str buf)"
  using writeBytes_length [of "writeVarUint (of_nat (length str)) buf" str 0 "length str"]
    writeVarUint_length [of buf "of_nat (length str)"]
  by (simp add: writeString_def)

lemma less_le_foldl:
  assumes "length a < length b" and "\<And>x b. length b \<le> length (f b x)"
  shows "length a < length (foldl f b xs)"
  using assms(1) foldl_length_mono [of f b xs, OF assms(2)] by simp

lemma writeFuncType_length: "length buf < length (writeFuncType type buf)"
proof -
  have m: "length b \<le> length (writeVarInt x b)" for x b
    using writeVarInt_length [of b x] by simp
  let ?b1 = "writeVarInt (ft_form type) buf"
  let ?b2 = "writeVarUint (of_nat (length (ft_params type))) ?b1"
  let ?b3 = "foldl (\<lambda>b i. writeVarInt (ft_params type ! i) b) ?b2 [0..<length (ft_params type)]"
  let ?b4 = "writeVarUint (of_nat (length (ft_returns type))) ?b3"
  have 1: "length buf < length ?b1"
    by (rule writeVarInt_length)
  have 2: "length buf < length ?b2"
    by (rule less_trans [OF 1 writeVarUint_length])
  have 3: "length buf < length ?b3"
    using 2 by (rule less_le_foldl) (rule m)
  have 4: "length buf < length ?b4"
    by (rule less_trans [OF 3 writeVarUint_length])
  show ?thesis
    unfolding writeFuncType_def Let_def using 4 by (rule less_le_foldl) (rule m)
qed

lemma writeResizableLimits_length: "length buf < length (writeResizableLimits limits buf)"
proof -
  have a: "length buf < length (writeVarUint (lim_initial limits) (writeVarUint f buf))" for f
    by (rule less_trans [OF writeVarUint_length writeVarUint_length])
  have b: "length buf < length (writeVarUint_opt m (writeVarUint (lim_initial limits) (writeVarUint f buf)))"
    for f m
    by (rule less_trans [OF a writeVarUint_opt_length])
  show ?thesis
    by (simp add: writeResizableLimits_def Let_def a b)
qed

lemma writeTableType_length: "length buf < length (writeTableType type buf)"
  unfolding writeTableType_def
  by (rule less_trans [OF writeVarInt_length writeResizableLimits_length])

lemma writeMemoryType_length: "length buf < length (writeMemoryType type buf)"
  by (simp add: writeMemoryType_def writeResizableLimits_length)

lemma writeGlobalType_length: "length buf < length (writeGlobalType type buf)"
  unfolding writeGlobalType_def
  by (rule less_trans [OF writeVarInt_length writeVarUint_length])

lemma writeMemoryImmediate_length: "length buf < length (writeMemoryImmediate address buf)"
  unfolding writeMemoryImmediate_def
  by (rule less_trans [OF writeVarUint_length writeVarUint_length])

lemma writeOperator_immediates_length:
  "length buf \<le> length (snd (writeOperator_immediates opInfo buf))"
proof -
  have u: "length b \<le> length (writeVarUint x b)" for x b
    using writeVarUint_length [of b x] by simp
  have uo: "length b \<le> length (writeVarUint_opt x b)" for x b
    using writeVarUint_opt_length [of b x] by simp
  have io: "length b \<le> length (writeVarInt_opt x b)" for x b
    using writeVarInt_opt_length [of b x] by simp
  have i: "length b \<le> length (writeVarInt x b)" for x b
    using writeVarInt_length [of b x] by simp
  have m: "length b \<le> length (writeMemoryImmediate x b)" for x b
    using writeMemoryImmediate_length [of b x] by simp
  have t: "length b \<le> length (foldl (\<lambda>b i. writeVarUint (tbl ! i) b) (writeVarUint x b) is)"
    for b tbl x "is"
    by (rule le_trans [OF u foldl_length_mono]) (rule u)
  have c: "length b \<le> length (writeVarUint 0 (writeVarUint_opt x b))" for x b
    by (rule le_trans [OF uo u])
  show ?thesis
    unfolding writeOperator_immediates_def Let_def writeVarInt64_def writeFloat32_def
      writeFloat64_def
    by (simp add: u uo io i m t c writeBytes_length if_distrib [of snd] if_distrib [of length]
        if_distrib [of "(\<le>) (length buf)"] split: option.split Literal.split
        split del: if_split cong: if_cong)
qed

lemma low7_unat:
  fixes x :: u32
  shows "unat ((ucast (x AND 0x7F) :: byte)) = unat x mod 128"
proof -
  have "x AND 0x7F = take_bit 7 x"
    by (simp add: take_bit_eq_mask mask_eq_exp_minus_1)
  then have "unat (x AND 0x7F) = unat x mod 128"
    by (simp add: take_bit_eq_mod unat_mod)
  moreover have "unat ((ucast (x AND 0x7F) :: byte)) = unat (x AND 0x7F) mod 256"
    by (simp add: unsigned_ucast_eq take_bit_eq_mod)
  ultimately show ?thesis
    by (simp add: mod_mod_cancel)
qed

lemma mask7_numeral: "(0x7F :: 'a::len word) = mask 7"
  by (simp add: mask_eq_exp_minus_1)

lemma low7_mask:
  "(ucast (x AND 0x7F :: u32) :: byte) AND 0x7F = ucast (x AND 0x7F)"
  unfolding mask7_numeral by (rule bit_word_eqI) (auto simp: bit_simps)

lemma low7_bit: "\<not> bit (ucast (x AND 0x7F :: u32) :: byte) 7"
  unfolding mask7_numeral by (simp add: bit_simps)

lemma cont_bit: "bit (0x80 OR ucast (x AND 0x7F :: u32) :: byte) 7"
  by (simp add: bit_or_iff)

lemma cont_mask:
  "(0x80 OR ucast (x AND 0x7F :: u32) :: byte) AND 0x7F = ucast (x AND 0x7F)"
proof -
  have "(0x80 :: byte) AND 0x7F = 0"
    by simp
  then show ?thesis
    by (simp add: word_ao_dist low7_mask)
qed

lemma base128_digits:
  fixes m :: nat
  assumes "m < 2 ^ 32"
  shows "m mod 128 + 2 ^ 7 * (m div 2 ^ 7 mod 128) + 2 ^ 14 * (m div 2 ^ 14 mod 128)
    + 2 ^ 21 * (m div 2 ^ 21 mod 128) + 2 ^ 28 * (m div 2 ^ 28 mod 128) = m"
proof -
  have "m = 128 * (m div 128) + m mod 128"
    by simp
  have d2: "m div 2 ^ 14 = m div 2 ^ 7 div 2 ^ 7"
    by (simp add: div_mult2_eq [symmetric])
  have d3: "m div 2 ^ 21 = m div 2 ^ 7 div 2 ^ 7 div 2 ^ 7"
    by (simp add: div_mult2_eq [symmetric])
  have d4: "m div 2 ^ 28 = m div 2 ^ 7 div 2 ^ 7 div 2 ^ 7 div 2 ^ 7"
    by (simp add: div_mult2_eq [symmetric])
  have small: "m div 2 ^ 7 div 2 ^ 7 div 2 ^ 7 div 2 ^ 7 < 128"
    using assms by (simp add: div_mult2_eq [symmetric])
  define a where "a = m div 2 ^ 7"
  define b where "b = a div 2 ^ 7"
  define c where "c = b div 2 ^ 7"
  define d where "d = c div 2 ^ 7"
  have "m = 128 * a + m mod 128" "a = 128 * b + a mod 128" "b = 128 * c + b mod 128"
    "c = 128 * d + c mod 128" "d mod 128 = d"
    using small by (simp_all add: a_def b_def c_def d_def)
  then have "m mod 128 + 128 * (a mod 128) + 16384 * (b mod 128) + 2097152 * (c mod 128)
      + 268435456 * (d mod 128) = m"
    by linarith
  then show ?thesis
    unfolding d2 d3 d4 a_def [symmetric] b_def [symmetric] c_def [symmetric] d_def [symmetric]
    by simp
qed

lemma patchVarUint32_in_range:
  assumes "pos + 5 \<le> length buf"
  shows "patchVarUint32 pos n buf =
    buf[pos := 0x80 OR ucast ((word_of_int n :: u32) AND 0x7F),
        pos + 1 := 0x80 OR ucast (drop_bit 7 (word_of_int n :: u32) AND 0x7F),
        pos + 2 := 0x80 OR ucast (drop_bit 14 (word_of_int n :: u32) AND 0x7F),
        pos + 3 := 0x80 OR ucast (drop_bit 21 (word_of_int n :: u32) AND 0x7F),
        pos + 4 := ucast (drop_bit 28 (word_of_int n :: u32) AND 0x7F)]"
  using assms by (simp add: patchVarUint32_def patchByte_def Let_def)

lemma patchVarUint32_length:
  "pos + 5 \<le> length buf \<Longrightarrow> length (patchVarUint32 pos n buf) = length buf"
  by (simp add: patchVarUint32_in_range)

lemma patchVarUint32_elsewhere:
  assumes "pos + 5 \<le> length buf" and "i < pos \<or> pos + 5 \<le> i"
  shows "patchVarUint32 pos n buf ! i = buf ! i"
  using assms by (auto simp: patchVarUint32_in_range)

lemma readPatched_patch:
  assumes "pos + 5 \<le> length buf"
  shows "readPatchedVarUint32 (patchVarUint32 pos n buf) pos
    = Some (unat (word_of_int n :: u32))"
proof -
  define w where "w = (word_of_int n :: u32)"
  have digits: "unat (ucast (drop_bit k w AND 0x7F) :: byte) = unat w div 2 ^ k mod 128" for k
  proof -
    have "unat (ucast (drop_bit k w AND 0x7F) :: byte) = unat (drop_bit k w) mod 128"
      by (rule low7_unat)
    also have "unat (drop_bit k w) = drop_bit k (unat w)"
      by (rule unat_drop_bit_eq)
    also have "drop_bit k (unat w) = unat w div 2 ^ k"
      by (rule drop_bit_eq_div)
    finally show ?thesis .
  qed
  have "unat w < 2 ^ 32"
    using unsigned_less [of w] by simp
  then have "unat w mod 128 + 2 ^ 7 * (unat w div 2 ^ 7 mod 128)
      + 2 ^ 14 * (unat w div 2 ^ 14 mod 128) + 2 ^ 21 * (unat w div 2 ^ 21 mod 128)
      + 2 ^ 28 * (unat w div 2 ^ 28 mod 128) = unat w"
    by (rule base128_digits)
  then have sum: "unat (ucast (w AND 0x7F) :: byte)
      + 2 ^ 7 * unat (ucast (drop_bit 7 w AND 0x7F) :: byte)
      + 2 ^ 14 * unat (ucast (drop_bit 14 w AND 0x7F) :: byte)
      + 2 ^ 21 * unat (ucast (drop_bit 21 w AND 0x7F) :: byte)
      + 2 ^ 28 * unat (ucast (drop_bit 28 w AND 0x7F) :: byte) = unat w"
    using low7_unat [of w] digits [of 7] digits [of 14] digits [of 21] digits [of 28]
    by (simp only:)
  show ?thesis
    using assms sum
    unfolding readPatchedVarUint32_def patchVarUint32_in_range [OF assms] w_def [symmetric]
    by (simp add: cont_bit cont_mask low7_bit low7_mask)
qed

lemma readPatched_elsewhere:
  assumes "pos + 5 \<le> length buf" and "q + 5 \<le> pos \<or> pos + 5 \<le> q"
  shows "readPatchedVarUint32 (patchVarUint32 pos n buf) q = readPatchedVarUint32 buf q"
  using assms
  by (auto simp: readPatchedVarUint32_def patchVarUint32_length patchVarUint32_elsewhere)

declare leb128.simps [simp del]

lemma low7_unat32: "unat ((x :: u32) AND 0x7F) = unat x mod 128"
proof -
  have "x AND 0x7F = take_bit 7 x"
    by (simp add: take_bit_eq_mask mask_eq_exp_minus_1)
  then show ?thesis
    by (simp add: take_bit_eq_mod unat_mod)
qed

lemma mod128_self: "(m :: nat) mod 128 = m \<longleftrightarrow> m < 128"
proof
  assume "m mod 128 = m"
  moreover have "m mod 128 < 128"
    by simp
  ultimately show "m < 128"
    by linarith
next
  assume "m < 128"
  then show "m mod 128 = m"
    by (rule mod_less)
qed

lemma no_high_bits_iff:
  fixes n :: u32
  shows "n AND NOT 0x7F = 0 \<longleftrightarrow> unat n < 128"
proof -
  have "n AND NOT (mask 7) = 0 \<longleftrightarrow> n AND mask 7 = n"
    by (auto simp: bit_eq_iff bit_simps)
  then have "n AND NOT 0x7F = 0 \<longleftrightarrow> n AND 0x7F = n"
    by (simp only: mask7_numeral)
  also have "\<dots> \<longleftrightarrow> unat (n AND 0x7F) = unat n"
    by (rule word_eq_iff_unsigned)
  also have "\<dots> \<longleftrightarrow> unat n < 128"
    by (simp only: low7_unat32 mod128_self)
  finally show ?thesis .
qed

lemma cont_byte_of_nat:
  fixes n :: u32
  shows "(0x80 OR ucast (n AND 0x7F) :: byte) = of_nat (128 + unat n mod 128)"
proof -
  define y where "y = (ucast (n AND 0x7F) :: byte)"
  have "y AND 0x7F = y"
    unfolding y_def by (rule low7_mask)
  then have "(0x80 :: byte) AND y = 0x80 AND (y AND 0x7F)"
    by (simp only:)
  also have "\<dots> = y AND (0x80 AND 0x7F)"
    by (simp only: and.left_commute)
  also have "\<dots> = 0"
    by simp
  finally have "(0x80 :: byte) OR y = 0x80 + y"
    using word_plus_and_or [of "0x80 :: byte" y] by simp
  moreover have "unat y = unat n mod 128"
    unfolding y_def by (rule low7_unat)
  moreover have "(of_nat (unat y) :: byte) = y"
    by simp
  ultimately have "(0x80 :: byte) OR y = 0x80 + of_nat (unat n mod 128)"
    by (simp only:)
  then show ?thesis
    unfolding y_def [symmetric] by simp
qed

lemma writeVarUint_leb128: "writeVarUint n [] = leb128 (unat n)"
proof (induction "unat n" arbitrary: n rule: less_induct)
  case less
  show ?case
  proof (cases "n AND NOT 0x7F = 0")
    case True
    then have "unat n < 128"
      using no_high_bits_iff [of n] by blast
    then show ?thesis
      using True by (simp add: writeVarUint_last leb128.simps [of "unat n"])
  next
    case False
    then have big: "\<not> unat n < 128"
      using no_high_bits_iff [of n] by blast
    have "writeVarUint n [] = [0x80 OR ucast (n AND 0x7f)] @ writeVarUint (drop_bit 7 n) []"
      using writeVarUint_more [OF False, of "[]"] writeVarUint_append [of "drop_bit 7 n" "[_]"]
      by simp
    also have "writeVarUint (drop_bit 7 n) [] = leb128 (unat (drop_bit 7 n))"
      by (rule less [OF varuint_shift_less [OF False]])
    also have "unat (drop_bit 7 n) = drop_bit 7 (unat n)"
      by (rule unat_drop_bit_eq)
    also have "drop_bit 7 (unat n) = unat n div 128"
      by (simp add: drop_bit_eq_div)
    finally have "writeVarUint n [] = of_nat (128 + unat n mod 128) # leb128 (unat n div 128)"
      by (simp only: cont_byte_of_nat append_Cons append_Nil)
    then show ?thesis
      using big by (simp only: leb128.simps [of "unat n"] if_False)
  qed
qed

lemma leb128_small_byte: "n < 256 \<Longrightarrow> unat (of_nat n :: byte) = n"
  by (simp add: unat_of_nat)

lemma unleb128_leb128: "unleb128 (leb128 n @ rest) = Some (n, rest)"
proof (induction n rule: leb128.induct)
  case (1 n)
  show ?case
  proof (cases "n < 128")
    case True
    then have "unat (of_nat n :: byte) = n"
      by (intro leb128_small_byte) simp
    then show ?thesis
      using True by (simp add: leb128.simps [of n])
  next
    case False
    have "128 + n mod 128 < 256"
      by simp
    then have u: "unat (of_nat (128 + n mod 128) :: byte) = 128 + n mod 128"
      by (rule leb128_small_byte)
    have "unleb128 (leb128 n @ rest)
        = unleb128 (of_nat (128 + n mod 128) # (leb128 (n div 128) @ rest))"
      using False by (simp add: leb128.simps [of n])
    also have "\<dots> = Some (n mod 128 + 128 * (n div 128), rest)"
      using "1.IH" [OF False] u by (simp del: of_nat_add)
    finally show ?thesis
      by simp
  qed
qed

section \<open>Properties of the emitter and the disassembler\<close>

text \<open>
  C10. \<open>writeBeginWasm\<close> does not read its header argument: whatever header it is given,
  or none, its result is the same, and on an emitter in state \<open>Initial\<close> it appends the
  eight bytes 00 61 73 6D 01 00 00 00 and moves to state \<open>Wasm\<close>.
\<close>

theorem writeBeginWasm_ignores_header:
  "writeBeginWasm header e = writeBeginWasm None e
   \<and> (state e = Initial \<longrightarrow>
        writeBeginWasm header e =
          (None, e\<lparr>buffer := buffer e @ [0x00, 0x61, 0x73, 0x6d, 0x01, 0x00, 0x00, 0x00],
                    state := Wasm\<rparr>))"
  by (simp add: writeBeginWasm_def writeMutiple_def)

theorem writeBeginWasm_ignores_header_witness:
  "writeBeginWasm (Some \<lparr>hdr_magic = 0xDEADBEEF, hdr_version = 7\<rparr>) Emitter_new
     = writeBeginWasm None Emitter_new
   \<and> buffer (snd (writeBeginWasm (Some \<lparr>hdr_magic = 0xDEADBEEF, hdr_version = 7\<rparr>) Emitter_new))
     = [0x00, 0x61, 0x73, 0x6d, 0x01, 0x00, 0x00, 0x00]"
proof -
  note t = writeBeginWasm_ignores_header
    [of "Some \<lparr>hdr_magic = 0xDEADBEEF, hdr_version = 7\<rparr>" Emitter_new]
  have 1: "writeBeginWasm (Some \<lparr>hdr_magic = 0xDEADBEEF, hdr_version = 7\<rparr>) Emitter_new
      = writeBeginWasm None Emitter_new"
    using t by (rule conjunct1)
  have "state Emitter_new = Initial"
    by (simp add: Emitter_new_def)
  with t have "writeBeginWasm (Some \<lparr>hdr_magic = 0xDEADBEEF, hdr_version = 7\<rparr>) Emitter_new
      = (None, Emitter_new\<lparr>buffer := buffer Emitter_new
             @ [0x00, 0x61, 0x73, 0x6d, 0x01, 0x00, 0x00, 0x00], state := Wasm\<rparr>)"
    by blast
  then have 2: "buffer (snd (writeBeginWasm
        (Some \<lparr>hdr_magic = 0xDEADBEEF, hdr_version = 7\<rparr>) Emitter_new))
      = [0x00, 0x61, 0x73, 0x6d, 0x01, 0x00, 0x00, 0x00]"
    by (simp add: Emitter_new_def)
  from 1 2 show ?thesis
    by (rule conjI)
qed

text \<open>
  C2 (counterexample). A \<open>BeginSection\<close> event for the Global section, received in state
  \<open>Wasm\<close>, is accepted: nothing is thrown, the emitter is in state \<open>GlobalSection\<close>, and
  the id and the two five-byte slots are in the buffer.
\<close>

theorem global_section_accepted:
  "writeBeginSection \<lparr>sec_id = SectionCode_Global, sec_name = []\<rparr>
     (Emitter_new\<lparr>state := Wasm\<rparr>)
   = (None, Emitter_new\<lparr>state := GlobalSection,
        buffer := [0x06, 0x80, 0x80, 0x80, 0x80, 0x00, 0x80, 0x80, 0x80, 0x80, 0x00],
        sectionSizeBytes := 1, sectionStart := 6, sectionEntiesCountBytes := 6\<rparr>)"
  by (simp add: writeBeginSection_def writePatchableVarUint32_def SectionCode_defs
      writePatchableSectionEntriesCount_def Emitter_new_def Let_def writeVarUint_last
      writeMutiple_def)

text \<open>
  C2 (amended). A \<open>BeginSection\<close> event received in state \<open>Wasm\<close> whose section id is
  Custom, Start, Element or Table throws and leaves the emitter in state \<open>Error\<close>. A
  Global section is accepted: the emitter appends the id 06, the five-byte size slot and
  the five-byte entries-count slot (80 80 80 80 00 each), records the position of the
  size slot in \<open>sectionSizeBytes\<close> and that of the count slot in \<open>sectionStart\<close> and
  \<open>sectionEntiesCountBytes\<close>, sets the count to 0 and moves to state \<open>GlobalSection\<close>.
\<close>

theorem rejected_sections:
  assumes "state e = Wasm"
  shows "(sec_id sec \<in> {SectionCode_Custom, SectionCode_Start, SectionCode_Element,
                        SectionCode_Table} \<longrightarrow>
            fst (writeBeginSection sec e) = Some (UnexpectedSection (sec_id sec))
            \<and> state (snd (writeBeginSection sec e)) = Error)
       \<and> (sec_id sec = SectionCode_Global \<longrightarrow>
            writeBeginSection sec e =
              (None, e\<lparr>buffer := buffer e
                           @ [0x06, 0x80, 0x80, 0x80, 0x80, 0x00, 0x80, 0x80, 0x80, 0x80, 0x00],
                        sectionSizeBytes := length (buffer e) + 1,
                        sectionStart := length (buffer e) + 6,
                        state := GlobalSection,
                        sectionEntiesCountBytes := length (buffer e) + 6,
                        sectionEntiesCount := 0\<rparr>))"
proof -
  have g: "writeVarUint SectionCode_Global buf = buf @ [0x06]" for buf
    by (simp add: writeVarUint_last SectionCode_defs)
  show ?thesis
    using assms g
    by (auto simp: writeBeginSection_def writePatchableVarUint32_def SectionCode_defs
        writePatchableSectionEntriesCount_def Let_def writeMutiple_def)
qed

theorem rejected_sections_witness:
  "fst (writeBeginSection \<lparr>sec_id = SectionCode_Table, sec_name = []\<rparr>
          (Emitter_new\<lparr>state := Wasm\<rparr>)) = Some (UnexpectedSection SectionCode_Table)
   \<and> state (snd (writeBeginSection \<lparr>sec_id = SectionCode_Table, sec_name = []\<rparr>
                 (Emitter_new\<lparr>state := Wasm\<rparr>))) = Error
   \<and> buffer (snd (writeBeginSection \<lparr>sec_id = SectionCode_Global, sec_name = []\<rparr>
                 (Emitter_new\<lparr>state := Wasm\<rparr>)))
       = [0x06, 0x80, 0x80, 0x80, 0x80, 0x00, 0x80, 0x80, 0x80, 0x80, 0x00]
   \<and> sectionEntiesCountBytes (snd (writeBeginSection
         \<lparr>sec_id = SectionCode_Global, sec_name = []\<rparr> (Emitter_new\<lparr>state := Wasm\<rparr>))) = 6"
  using rejected_sections [of "Emitter_new\<lparr>state := Wasm\<rparr>"
      "\<lparr>sec_id = SectionCode_Table, sec_name = []\<rparr>"]
    rejected_sections [of "Emitter_new\<lparr>state := Wasm\<rparr>"
      "\<lparr>sec_id = SectionCode_Global, sec_name = []\<rparr>"]
  by (simp add: Emitter_new_def)

lemma writeBytes_zeros: "writeBytes (replicate n 0) 0 n buf = buf @ replicate n 0"
proof -
  have "foldl (\<lambda>b i. writeByte (if i < n then replicate n 0 ! i else 0) b) buf [0..<m]
      = buf @ replicate m 0" for m
    by (induction m) (simp_all add: writeByte_def replicate_append_same)
  then show ?thesis
    by (simp add: writeBytes_def)
qed

text \<open>
  C1. The emitter writes four zero bytes after the opcode of every \<open>f32.const\<close> and
  eight zero bytes after the opcode of every \<open>f64.const\<close>, whatever the literal. For the
  literal 1.0 (bit pattern 3F800000) these are not the bytes 00 00 80 3F of its encoding.
\<close>

theorem float_constants_written_as_zeros:
  "writeFloat32 n buf = buf @ [0, 0, 0, 0]
   \<and> writeFloat64 n buf = buf @ [0, 0, 0, 0, 0, 0, 0, 0]
   \<and> writeOperator \<lparr>op_code = OperatorCode_f32_const, op_blockType = None, op_brDepth = None,
        op_brTable = None, op_funcIndex = None, op_typeIndex = None, op_localIndex = None,
        op_globalIndex = None, op_memoryAddress = None,
        op_literal = Some (F32Literal 0x3F800000)\<rparr> (Emitter_new\<lparr>state := FunctionBody\<rparr>)
      = (None, Emitter_new\<lparr>state := FunctionBody, buffer := [0x43, 0, 0, 0, 0]\<rparr>)
   \<and> float32LittleEndian 0x3F800000 = [0x00, 0x00, 0x80, 0x3F]"
proof -
  have a: "writeFloat32 m b = b @ [0, 0, 0, 0]" for m b
    using writeBytes_zeros [of 4 b] by (simp add: writeFloat32_def numeral_eq_Suc)
  have b: "writeFloat64 m b = b @ [0, 0, 0, 0, 0, 0, 0, 0]" for m b
    using writeBytes_zeros [of 8 b] by (simp add: writeFloat64_def numeral_eq_Suc)
  have c: "writeOperator \<lparr>op_code = OperatorCode_f32_const, op_blockType = None, op_brDepth = None,
        op_brTable = None, op_funcIndex = None, op_typeIndex = None, op_localIndex = None,
        op_globalIndex = None, op_memoryAddress = None,
        op_literal = Some (F32Literal 0x3F800000)\<rparr> (Emitter_new\<lparr>state := FunctionBody\<rparr>)
      = (None, Emitter_new\<lparr>state := FunctionBody, buffer := [0x43, 0, 0, 0, 0]\<rparr>)"
    by (simp add: writeOperator_def writeOperator_immediates_def isMemoryAccess_def
        OperatorCode_defs a writeByte_def Emitter_new_def)
  have d: "float32LittleEndian 0x3F800000 = [0x00, 0x00, 0x80, 0x3F]"
    by (simp add: float32LittleEndian_def upt_rec)
  show ?thesis
    using a b c d by simp
qed

lemma foldl_index:
  "foldl (\<lambda>b i. f (xs ! i) b) buf [0..<length xs] = foldl (\<lambda>b x. f x b) buf xs"
proof (induction xs arbitrary: buf rule: rev_induct)
  case Nil
  show ?case by simp
next
  case (snoc x xs)
  have "foldl (\<lambda>b i. f ((xs @ [x]) ! i) b) buf [0..<length xs]
      = foldl (\<lambda>b i. f (xs ! i) b) buf [0..<length xs]"
    by (rule foldl_cong) (simp_all add: nth_append)
  then show ?case
    using snoc.IH by simp
qed

lemma foldl_writeVarUint:
  "foldl (\<lambda>b x. writeVarUint x b) buf xs = buf @ concat (map (\<lambda>x. writeVarUint x []) xs)"
proof (induction xs arbitrary: buf)
  case Nil
  show ?case by simp
next
  case (Cons x xs)
  show ?case
    using Cons.IH [of "writeVarUint x buf"] writeVarUint_append [of x buf] by simp
qed

lemma foldl_writeVarUint_leb128:
  "foldl (\<lambda>b x. writeVarUint x b) buf xs = buf @ concat (map (\<lambda>x. leb128 (unat x)) xs)"
  by (simp only: foldl_writeVarUint writeVarUint_leb128)

text \<open>
  C7. For a \<open>br_table\<close> operator with a non-empty target list (a JavaScript array, so
  of fewer than \<open>2 ^ 32\<close> elements), written in a function body or an init expression,
  the emitter appends the opcode byte 0E, then the number of targets less one in unsigned
  LEB128, then each target in unsigned LEB128, in order.
\<close>

theorem br_table_encoding:
  assumes "state e = FunctionBody \<or> state e = InitExpression"
    and "op_code opInfo = OperatorCode_br_table"
    and "op_brTable opInfo = Some brTable"
    and "brTable \<noteq> []"
    and "length brTable < 2 ^ 32"
  shows "writeOperator opInfo e =
    (None, e\<lparr>buffer := buffer e @ [0x0E]
                 @ leb128 (length brTable - 1)
                 @ concat (map (\<lambda>target. leb128 (unat target)) brTable),
              endWritten := False\<rparr>)"
proof -
  obtain x xs where brTable: "brTable = x # xs"
    using assms(4) by (cases brTable) auto
  have "length xs < 2 ^ 32"
    using assms(5) brTable by simp
  then have count: "unat (of_nat (length xs) :: u32) = length xs"
    by (simp add: unat_of_nat)
  have "writeOperator_immediates opInfo buf =
      (None, buf @ leb128 (length brTable - 1)
               @ concat (map (\<lambda>target. leb128 (unat target)) brTable))" for buf
  proof -
    have "writeOperator_immediates opInfo buf =
        (None, foldl (\<lambda>b i. writeVarUint (brTable ! i) b)
                 (writeVarUint (of_nat (length xs)) buf) [0..<length brTable])"
    proof -
      have "nat (int (length xs) + 1) = Suc (length xs)"
        by simp
      then show ?thesis
        using assms(2,3)
        by (simp add: writeOperator_immediates_def OperatorCode_defs Let_def brTable)
    qed
    also have "\<dots> = (None, writeVarUint (of_nat (length xs)) buf
        @ concat (map (\<lambda>target. leb128 (unat target)) brTable))"
      by (simp only: foldl_index foldl_writeVarUint_leb128)
    also have "writeVarUint (of_nat (length xs)) buf = buf @ leb128 (length xs)"
      using writeVarUint_append [of "of_nat (length xs)" buf]
      by (simp only: writeVarUint_leb128 count)
    finally show ?thesis
      by (simp add: brTable)
  qed
  then show ?thesis
    using assms(1,2) by (auto simp: writeOperator_def writeByte_def OperatorCode_defs)
qed

theorem br_table_encoding_witness:
  "writeOperator \<lparr>op_code = 0x0E, op_blockType = None, op_brDepth = None,
       op_brTable = Some [1, 2, 3, 0], op_funcIndex = None, op_typeIndex = None,
       op_localIndex = None, op_globalIndex = None, op_memoryAddress = None,
       op_literal = None\<rparr> (Emitter_new\<lparr>state := FunctionBody\<rparr>)
   = (None, Emitter_new\<lparr>state := FunctionBody, buffer := [0x0E, 0x03, 0x01, 0x02, 0x03, 0x00]\<rparr>)
   \<and> writeOperator \<lparr>op_code = 0x0E, op_blockType = None, op_brDepth = None,
       op_brTable = Some [128, 300], op_funcIndex = None, op_typeIndex = None,
       op_localIndex = None, op_globalIndex = None, op_memoryAddress = None,
       op_literal = None\<rparr> (Emitter_new\<lparr>state := FunctionBody\<rparr>)
   = (None, Emitter_new\<lparr>state := FunctionBody, buffer := [0x0E, 0x01, 0x80, 0x01, 0xAC, 0x02]\<rparr>)"
  using br_table_encoding [of "Emitter_new\<lparr>state := FunctionBody\<rparr>"
      "\<lparr>op_code = 0x0E, op_blockType = None, op_brDepth = None,
       op_brTable = Some [1, 2, 3, 0], op_funcIndex = None, op_typeIndex = None,
       op_localIndex = None, op_globalIndex = None, op_memoryAddress = None,
       op_literal = None\<rparr>" "[1, 2, 3, 0]"]
    br_table_encoding [of "Emitter_new\<lparr>state := FunctionBody\<rparr>"
      "\<lparr>op_code = 0x0E, op_blockType = None, op_brDepth = None,
       op_brTable = Some [128, 300], op_funcIndex = None, op_typeIndex = None,
       op_localIndex = None, op_globalIndex = None, op_memoryAddress = None,
       op_literal = None\<rparr>" "[128, 300]"]
  by (simp add: Emitter_new_def OperatorCode_defs leb128.simps)

lemma disassemble_read_false:
  "rd_read R r = (False, r') \<Longrightarrow> disassemble X R r d = Some (Null, r', d)"
  by (subst disassemble.simps) simp

lemma disassemble_read_true:
  "rd_read R r = (True, r') \<Longrightarrow>
   disassemble X R r d =
     (case disassemble_case X R r' d (rd_state R r') of
        (Break, r, d) \<Rightarrow> disassemble X R r d
      | (Return result, r, d) \<Rightarrow> Some (Text result, r, d)
      | (Throw err, r, d) \<Rightarrow> Some (Exception err, r, d))"
  by (subst disassemble.simps) simp

lemma scriptReader_simps:
  "rd_state scriptReader r = sr_state r"
  "rd_hasMoreBytes scriptReader r = sr_hasMoreBytes r"
  "rd_skipSection scriptReader r = r"
  by (simp_all add: scriptReader_def)

lemma script_read_Deliver:
  "rd_read scriptReader \<lparr>sr_script = Deliver ev answer # rest, sr_state = s, sr_hasMoreBytes = h\<rparr>
   = (True, \<lparr>sr_script = rest, sr_state = ev, sr_hasMoreBytes = answer\<rparr>)"
  by (simp add: scriptReader_def)

lemma disassemble_script_Deliver:
  "disassemble X scriptReader
     \<lparr>sr_script = Deliver ev answer # rest, sr_state = s, sr_hasMoreBytes = h\<rparr> d =
     (case disassemble_case X scriptReader
             \<lparr>sr_script = rest, sr_state = ev, sr_hasMoreBytes = answer\<rparr> d ev of
        (Break, r, d) \<Rightarrow> disassemble X scriptReader r d
      | (Return result, r, d) \<Rightarrow> Some (Text result, r, d)
      | (Throw err, r, d) \<Rightarrow> Some (Exception err, r, d))"
  by (simp add: disassemble_read_true [OF script_read_Deliver] scriptReader_simps)

text \<open>
  C3. For \<open>f32.load\<close> with its natural alignment (flags 2) and offset 16 the text is
  \<open>offset=16 align=4\<close>: the alignment is not elided, while for \<open>i32.load\<close> with the
  same address it is.
\<close>

theorem float_access_alignment_not_elided:
  "memoryAddressToString \<lparr>ma_flags = 2, ma_offset = 16\<rparr> OperatorCode_f32_load
     = ''offset=16 align=4''
   \<and> memoryAddressToString \<lparr>ma_flags = 2, ma_offset = 16\<rparr> OperatorCode_i32_load
     = ''offset=16''"
  by (simp add: memoryAddressToString_def defaultAlignFlags_def OperatorCode_defs
      u32ToString_def intToString_def shiftLeftOne_def digitChar_def)

text \<open>
  C8. For the events \<open>BeginWasm\<close>, \<open>EndWasm\<close>, with any header, a new emitter ends
  with the data 00 61 73 6D 01 00 00 00, and a new disassembler, whose reader has no more
  bytes after \<open>EndWasm\<close>, returns the text of \<open>(module\<close>, a line break, \<open>)\<close> and a
  line break.
\<close>

theorem empty_module:
  "data (snd (writeEvents [BEGIN_WASM header, END_WASM] Emitter_new))
     = Some [0x00, 0x61, 0x73, 0x6D, 0x01, 0x00, 0x00, 0x00]
   \<and> fst (writeEvents [BEGIN_WASM header, END_WASM] Emitter_new) = None
   \<and> map_option fst (disassemble X scriptReader
         (startReader [Deliver (BEGIN_WASM header) True, Deliver END_WASM False])
         WasmDisassembler_new)
     = Some (Text ''(module\<newline>)\<newline>'')"
proof -
  have "writeEvents [BEGIN_WASM header, END_WASM] Emitter_new
      = (None, Emitter_new\<lparr>data := Some [0x00, 0x61, 0x73, 0x6D, 0x01, 0x00, 0x00, 0x00]\<rparr>)"
    by (simp add: Emitter_new_def writeBeginWasm_def writeEndWasm_def writeMutiple_def)
  moreover have "disassemble X scriptReader
         (startReader [Deliver (BEGIN_WASM header) True, Deliver END_WASM False])
         WasmDisassembler_new
      = Some (Text ''(module\<newline>)\<newline>'',
          \<lparr>sr_script = [], sr_state = END_WASM, sr_hasMoreBytes = False\<rparr>,
          WasmDisassembler_new)"
    by (simp add: startReader_def disassemble_script_Deliver scriptReader_simps push_def
        WasmDisassembler_new_def)
  ultimately show ?thesis
    by simp
qed

lemma writeOperator_accepted:
  assumes "writeOperator opInfo e = (None, e')"
  shows "state e' = state e \<and> (state e = FunctionBody \<or> state e = InitExpression)
    \<and> endWritten e' = (op_code opInfo = OperatorCode_end)
    \<and> initExpressionAfterState e' = initExpressionAfterState e"
  using assms
  by (auto simp: writeOperator_def Let_def split: if_splits prod.splits)

lemma writeOperators_accepted:
  assumes "writeEvents (map f ops) e = (None, e')"
    and "f = CODE_OPERATOR \<or> f = INIT_EXPRESSION_OPERATOR"
  shows "state e' = state e
    \<and> endWritten e' = (if ops = [] then endWritten e else op_code (last ops) = OperatorCode_end)
    \<and> initExpressionAfterState e' = initExpressionAfterState e"
  using assms
proof (induction ops arbitrary: e)
  case Nil
  then show ?case by simp
next
  case (Cons opInfo ops)
  obtain err e1 where w: "writeOperator opInfo e = (err, e1)"
    by (cases "writeOperator opInfo e")
  have d: "writeStateAndResult (f opInfo) e = writeOperator opInfo e"
    using Cons.prems(2) by auto
  have "err = None"
    using Cons.prems(1) w d by (cases err) simp_all
  then have w': "writeOperator opInfo e = (None, e1)"
    using w by simp
  then have rest: "writeEvents (map f ops) e1 = (None, e')"
    using Cons.prems(1) d by simp
  show ?case
    using Cons.IH [OF rest Cons.prems(2)] writeOperator_accepted [OF w'] by simp
qed

text \<open>
  C4. After a function body has been begun and a sequence of operators has been written
  into it, \<open>writeEndFunctionBody\<close> succeeds if and only if the sequence is not empty and
  its last operator is \<open>end\<close>; otherwise it throws and leaves the emitter as it was. The
  same holds of \<open>writeEndInitExpression\<close> after an init expression has been begun.
\<close>

theorem end_operator_discipline:
  assumes "writeBeginFunctionBody functionInfo e0 = (None, e1)"
    and "writeEvents (map CODE_OPERATOR ops) e1 = (None, e2)"
    and "writeBeginInitExpression i0 = (None, i1)"
    and "writeEvents (map INIT_EXPRESSION_OPERATOR iops) i1 = (None, i2)"
  shows "(fst (writeEndFunctionBody e2) = None
            \<longleftrightarrow> ops \<noteq> [] \<and> op_code (last ops) = OperatorCode_end)
       \<and> (fst (writeEndFunctionBody e2) \<noteq> None
            \<longrightarrow> writeEndFunctionBody e2 = (Some EndOperatorExpected, e2))
       \<and> (fst (writeEndInitExpression i2) = None
            \<longleftrightarrow> iops \<noteq> [] \<and> op_code (last iops) = OperatorCode_end)
       \<and> (fst (writeEndInitExpression i2) \<noteq> None
            \<longrightarrow> writeEndInitExpression i2 = (Some EndOperatorExpected, i2))"
proof -
  have e1: "state e1 = FunctionBody \<and> \<not> endWritten e1"
    using assms(1)
    by (auto simp: writeBeginFunctionBody_def Let_def split: if_splits prod.splits)
  have e2: "state e2 = FunctionBody
      \<and> endWritten e2 = (ops \<noteq> [] \<and> op_code (last ops) = OperatorCode_end)"
    using writeOperators_accepted [OF assms(2)] e1 by auto
  have i1: "state i1 = InitExpression \<and> \<not> endWritten i1"
    using assms(3) by (auto simp: writeBeginInitExpression_def split: if_splits)
  have i2: "state i2 = InitExpression
      \<and> endWritten i2 = (iops \<noteq> [] \<and> op_code (last iops) = OperatorCode_end)"
    using writeOperators_accepted [OF assms(4)] i1 by auto
  show ?thesis
    using e2 i2 by (simp add: writeEndFunctionBody_def writeEndInitExpression_def Let_def)
qed

theorem end_operator_discipline_witness:
  "fst (writeEndFunctionBody (snd (writeEvents
       (map CODE_OPERATOR
          [\<lparr>op_code = 0x01, op_blockType = None, op_brDepth = None, op_brTable = None,
            op_funcIndex = None, op_typeIndex = None, op_localIndex = None,
            op_globalIndex = None, op_memoryAddress = None, op_literal = None\<rparr>])
       (snd (writeBeginFunctionBody \<lparr>fi_locals = []\<rparr> (Emitter_new\<lparr>state := CodeSection\<rparr>))))))
     = Some EndOperatorExpected
   \<and> fst (writeEndInitExpression (snd (writeEvents
       (map INIT_EXPRESSION_OPERATOR
          [\<lparr>op_code = 0x0B, op_blockType = None, op_brDepth = None, op_brTable = None,
            op_funcIndex = None, op_typeIndex = None, op_localIndex = None,
            op_globalIndex = None, op_memoryAddress = None, op_literal = None\<rparr>])
       (snd (writeBeginInitExpression (Emitter_new\<lparr>state := DataSectionEntry\<rparr>))))))
     = None"
proof -
  define nop where "nop = \<lparr>op_code = 0x01, op_blockType = None, op_brDepth = None,
      op_brTable = None, op_funcIndex = None, op_typeIndex = None, op_localIndex = None,
      op_globalIndex = None, op_memoryAddress = None, op_literal = None\<rparr>"
  define endOp where "endOp = \<lparr>op_code = 0x0B, op_blockType = None, op_brDepth = None,
      op_brTable = None, op_funcIndex = None, op_typeIndex = None, op_localIndex = None,
      op_globalIndex = None, op_memoryAddress = None, op_literal = None\<rparr>"
  define e1 where "e1 = snd (writeBeginFunctionBody \<lparr>fi_locals = []\<rparr>
      (Emitter_new\<lparr>state := CodeSection\<rparr>))"
  define i1 where "i1 = snd (writeBeginInitExpression (Emitter_new\<lparr>state := DataSectionEntry\<rparr>))"
  define e2 where "e2 = snd (writeEvents (map CODE_OPERATOR [nop]) e1)"
  define i2 where "i2 = snd (writeEvents (map INIT_EXPRESSION_OPERATOR [endOp]) i1)"
  have a: "writeBeginFunctionBody \<lparr>fi_locals = []\<rparr> (Emitter_new\<lparr>state := CodeSection\<rparr>)
      = (None, e1)"
    by (simp add: e1_def writeBeginFunctionBody_def writePatchableVarUint32_def Emitter_new_def
        Let_def)
  have b: "writeEvents (map CODE_OPERATOR [nop]) e1 = (None, e2)"
    by (simp add: e2_def e1_def nop_def writeBeginFunctionBody_def writePatchableVarUint32_def
        Emitter_new_def Let_def writeOperator_def writeOperator_immediates_def
        isMemoryAccess_def OperatorCode_defs)
  have c: "writeBeginInitExpression (Emitter_new\<lparr>state := DataSectionEntry\<rparr>) = (None, i1)"
    by (simp add: i1_def writeBeginInitExpression_def Emitter_new_def)
  have d: "writeEvents (map INIT_EXPRESSION_OPERATOR [endOp]) i1 = (None, i2)"
    by (simp add: i2_def i1_def endOp_def writeBeginInitExpression_def Emitter_new_def
        writeOperator_def writeOperator_immediates_def isMemoryAccess_def OperatorCode_defs)
  note t = end_operator_discipline [OF a b c d]
  have "op_code (last [nop]) \<noteq> OperatorCode_end" "op_code (last [endOp]) = OperatorCode_end"
    by (simp_all add: nop_def endOp_def OperatorCode_defs)
  with t have "fst (writeEndFunctionBody e2) = Some EndOperatorExpected
      \<and> fst (writeEndInitExpression i2) = None"
    by auto
  then show ?thesis
    by (simp only: e2_def i2_def e1_def i1_def nop_def endOp_def)
qed

lemma sound_writeBeginWasm: "bookmarksSound e \<Longrightarrow> bookmarksSound (snd (writeBeginWasm header e))"
  by (auto simp: writeBeginWasm_def bookmarksSound_def inSection_def)

lemma sound_writeEndWasm: "bookmarksSound e \<Longrightarrow> bookmarksSound (snd (writeEndWasm e))"
  by (auto simp: writeEndWasm_def bookmarksSound_def inSection_def)

lemma begun_section:
  assumes "writeBeginSection sec e = (None, e')"
  shows "inSection (state e') \<and> state e' \<noteq> FunctionBody \<and> state e' \<noteq> InitExpression
    \<and> sectionSizeBytes e' + 5 = sectionStart e'
    \<and> sectionEntiesCountBytes e' = sectionStart e'
    \<and> sectionStart e' + 5 = length (buffer e')
    \<and> sectionEntiesCount e' = 0"
  using assms
  by (auto simp: writeBeginSection_def writePatchableVarUint32_def writeMutiple_def Let_def
      writePatchableSectionEntriesCount_def inSection_def split: if_splits)

lemma failed_section:
  assumes "writeBeginSection sec e = (Some err, e')"
  shows "e' = e \<or> state e' = Error"
  using assms
  by (auto simp: writeBeginSection_def writePatchableVarUint32_def writeMutiple_def Let_def
      writePatchableSectionEntriesCount_def split: if_splits)

lemma sound_writeBeginSection:
  assumes "bookmarksSound e"
  shows "bookmarksSound (snd (writeBeginSection sec e))"
proof (cases "writeBeginSection sec e")
  case (Pair err e')
  show ?thesis
  proof (cases err)
    case None
    then show ?thesis
      using begun_section [of sec e e'] Pair by (simp add: bookmarksSound_def)
  next
    case (Some x)
    then show ?thesis
      using failed_section [of sec e x e'] Pair assms
      by (auto simp: bookmarksSound_def inSection_def)
  qed
qed

lemma sound_grow:
  assumes "bookmarksSound e" and "length (buffer e) \<le> length buf"
  shows "bookmarksSound (e\<lparr>buffer := buf\<rparr>)"
  using assms by (auto simp: bookmarksSound_def)

lemma sound_entry:
  assumes "bookmarksSound e" and "length (buffer e) < length buf"
  shows "bookmarksSound (e\<lparr>sectionEntiesCount := Suc (sectionEntiesCount e), buffer := buf\<rparr>)"
  using assms by (auto simp: bookmarksSound_def)

lemma sound_writeTypeSectionEntry:
  "bookmarksSound e \<Longrightarrow> bookmarksSound (snd (writeTypeSectionEntry type e))"
  by (simp add: writeTypeSectionEntry_def sound_entry writeFuncType_length)

lemma sound_writeFunctionSectionEntry:
  "bookmarksSound e \<Longrightarrow> bookmarksSound (snd (writeFunctionSectionEntry entry e))"
  by (simp add: writeFunctionSectionEntry_def sound_entry writeVarUint_length)

lemma sound_writeMemorySectionEntry:
  "bookmarksSound e \<Longrightarrow> bookmarksSound (snd (writeMemorySectionEntry entry e))"
  by (simp add: writeMemorySectionEntry_def sound_entry writeMemoryType_length)

lemma writeExport_length:
  "length buf < length (writeVarUint i (writeByte k (writeString s buf)))"
proof -
  have "length buf < length (writeByte k (writeString s buf))"
    using writeString_length [of buf s] by (simp add: writeByte_def)
  then show ?thesis
    by (rule less_trans [OF _ writeVarUint_length])
qed

lemma sound_writeExportSectionEntry:
  "bookmarksSound e \<Longrightarrow> bookmarksSound (snd (writeExportSectionEntry entry e))"
  by (simp add: writeExportSectionEntry_def Let_def sound_entry writeExport_length)

lemma writeImport_length:
  "length buf < length (writeByte k (writeString s (writeString m buf)))"
  using less_trans [OF writeString_length [of buf m] writeString_length [of _ s]]
  by (simp add: writeByte_def)

lemma sound_frame:
  assumes "bookmarksSound e"
    and "state e' = state e"
    and "sectionStart e' = sectionStart e"
    and "sectionSizeBytes e' = sectionSizeBytes e"
    and "sectionEntiesCountBytes e' = sectionEntiesCountBytes e"
    and "bodyStart e' = bodyStart e"
    and "bodySizeBytes e' = bodySizeBytes e"
    and "initExpressionAfterState e' = initExpressionAfterState e"
    and "length (buffer e) \<le> length (buffer e')"
    and "sectionEntiesCount e' + length (buffer e) \<le> sectionEntiesCount e + length (buffer e')"
  shows "bookmarksSound e'"
  using assms unfolding bookmarksSound_def by auto

lemma import_props:
  assumes "writeImportSectionEntry entry e = (err, e')"
  shows "state e' = state e
    \<and> sectionStart e' = sectionStart e
    \<and> sectionSizeBytes e' = sectionSizeBytes e
    \<and> sectionEntiesCountBytes e' = sectionEntiesCountBytes e
    \<and> bodyStart e' = bodyStart e
    \<and> bodySizeBytes e' = bodySizeBytes e
    \<and> initExpressionAfterState e' = initExpressionAfterState e
    \<and> (e' = e \<and> err \<noteq> None
       \<or> sectionEntiesCount e' = Suc (sectionEntiesCount e)
         \<and> length (buffer e) < length (buffer e'))"
proof (cases "state e = ImportSection")
  case False
  then show ?thesis
    using assms by (auto simp: writeImportSectionEntry_def)
next
  case True
  let ?b = "writeByte (imp_kind entry) (writeString (imp_field entry)
      (writeString (imp_module entry) (buffer e)))"
  have b: "length (buffer e) < length ?b"
    by (rule writeImport_length)
  have 1: "length (buffer e) < length (writeVarUint_opt x ?b)" for x
    by (rule less_trans [OF b writeVarUint_opt_length])
  have 2: "length (buffer e) < length (writeTableType x ?b)" for x
    by (rule less_trans [OF b writeTableType_length])
  have 3: "length (buffer e) < length (writeMemoryType x ?b)" for x
    by (rule less_trans [OF b writeMemoryType_length])
  have 4: "length (buffer e) < length (writeGlobalType x ?b)" for x
    by (rule less_trans [OF b writeGlobalType_length])
  show ?thesis
    using True assms b 1 2 3 4
    by (auto simp: writeImportSectionEntry_def Let_def
        split: if_splits option.splits ImportType.splits)
qed

lemma sound_writeImportSectionEntry:
  assumes "bookmarksSound e"
  shows "bookmarksSound (snd (writeImportSectionEntry entry e))"
proof (cases "writeImportSectionEntry entry e")
  case (Pair err e')
  show ?thesis
    using import_props [OF Pair] assms sound_frame [OF assms, of e'] Pair by auto
qed

lemma locals_length:
  "length buf \<le> length (foldl (\<lambda>b i. writeVarInt (loc_type (locals ! i))
      (writeVarUint (loc_count (locals ! i)) b)) (writeVarUint n buf) is)"
proof -
  have "length b \<le> length (writeVarInt t (writeVarUint c b))" for b t c
    using less_trans [OF writeVarUint_length [of b c] writeVarInt_length [of _ t]] by simp
  then have "length (writeVarUint n buf) \<le> length (foldl (\<lambda>b i. writeVarInt (loc_type (locals ! i))
      (writeVarUint (loc_count (locals ! i)) b)) (writeVarUint n buf) is)"
    by (rule foldl_length_mono)
  then show ?thesis
    using writeVarUint_length [of buf n] by simp
qed

lemma beginFunctionBody_props:
  assumes "writeBeginFunctionBody functionInfo e = (err, e')"
  shows "sectionStart e' = sectionStart e
    \<and> sectionSizeBytes e' = sectionSizeBytes e
    \<and> sectionEntiesCountBytes e' = sectionEntiesCountBytes e
    \<and> initExpressionAfterState e' = initExpressionAfterState e
    \<and> (e' = e \<and> err \<noteq> None
       \<or> err = None \<and> state e = CodeSection \<and> state e' = FunctionBody
         \<and> sectionEntiesCount e' = Suc (sectionEntiesCount e)
         \<and> bodySizeBytes e' = length (buffer e)
         \<and> bodyStart e' = length (buffer e) + 5
         \<and> length (buffer e) + 5 \<le> length (buffer e'))"
proof (cases "state e = CodeSection")
  case False
  then show ?thesis
    using assms by (auto simp: writeBeginFunctionBody_def)
next
  case True
  have "length (buffer e) + 5 \<le> length (foldl (\<lambda>b i. writeVarInt (loc_type (fi_locals functionInfo ! i))
      (writeVarUint (loc_count (fi_locals functionInfo ! i)) b))
      (writeVarUint n (buffer e @ [0x80, 0x80, 0x80, 0x80, 0x00])) is)" for n "is"
    using locals_length [of "buffer e @ [0x80, 0x80, 0x80, 0x80, 0x00]" "fi_locals functionInfo" n "is"]
    by simp
  then show ?thesis
    using True assms
    by (auto simp: writeBeginFunctionBody_def writePatchableVarUint32_def writeMutiple_def Let_def)
qed

lemma sound_writeBeginFunctionBody:
  assumes "bookmarksSound e"
  shows "bookmarksSound (snd (writeBeginFunctionBody functionInfo e))"
proof (cases "writeBeginFunctionBody functionInfo e")
  case (Pair err e')
  show ?thesis
    using beginFunctionBody_props [OF Pair] assms Pair
    by (auto simp: bookmarksSound_def inSection_def)
qed

lemma sound_writeEndFunctionBody:
  assumes "bookmarksSound e"
  shows "bookmarksSound (snd (writeEndFunctionBody e))"
proof (cases "state e = FunctionBody \<and> endWritten e")
  case False
  then show ?thesis
    using assms by (auto simp: writeEndFunctionBody_def)
next
  case True
  then have "bodySizeBytes e + 5 \<le> length (buffer e)"
    using assms by (auto simp: bookmarksSound_def)
  then have "length (patchVarUint32 (bodySizeBytes e) n (buffer e)) = length (buffer e)" for n
    by (rule patchVarUint32_length)
  then show ?thesis
    using True assms
    by (auto simp: writeEndFunctionBody_def Let_def bookmarksSound_def inSection_def)
qed

lemma sound_writeBeginDataSectionEntry:
  assumes "bookmarksSound e"
  shows "bookmarksSound (snd (writeBeginDataSectionEntry entry e))"
  using assms writeVarUint_length [of "buffer e" "ds_index entry"]
  by (auto simp: writeBeginDataSectionEntry_def bookmarksSound_def inSection_def)

lemma sound_writeDataSectionBody:
  assumes "bookmarksSound e"
  shows "bookmarksSound (snd (writeDataSectionBody body e))"
  using assms writeString_length [of "buffer e" "dsb_data body"]
  by (auto simp: writeDataSectionBody_def bookmarksSound_def inSection_def)

lemma sound_writeEndDataSectionEntry:
  "bookmarksSound e \<Longrightarrow> bookmarksSound (snd (writeEndDataSectionEntry e))"
  by (auto simp: writeEndDataSectionEntry_def bookmarksSound_def inSection_def)

lemma sound_writeBeginInitExpression:
  "bookmarksSound e \<Longrightarrow> bookmarksSound (snd (writeBeginInitExpression e))"
  by (auto simp: writeBeginInitExpression_def bookmarksSound_def inSection_def)

lemma sound_writeEndInitExpression:
  "bookmarksSound e \<Longrightarrow> bookmarksSound (snd (writeEndInitExpression e))"
  by (auto simp: writeEndInitExpression_def bookmarksSound_def inSection_def)

lemma operator_props:
  assumes "writeOperator opInfo e = (err, e')"
  shows "state e' = state e
    \<and> sectionStart e' = sectionStart e
    \<and> sectionSizeBytes e' = sectionSizeBytes e
    \<and> sectionEntiesCountBytes e' = sectionEntiesCountBytes e
    \<and> sectionEntiesCount e' = sectionEntiesCount e
    \<and> bodyStart e' = bodyStart e
    \<and> bodySizeBytes e' = bodySizeBytes e
    \<and> initExpressionAfterState e' = initExpressionAfterState e
    \<and> length (buffer e) \<le> length (buffer e')"
proof (cases "state e \<noteq> FunctionBody \<and> state e \<noteq> InitExpression")
  case True
  then show ?thesis
    using assms by (auto simp: writeOperator_def)
next
  case False
  obtain r buf where w: "writeOperator_immediates opInfo (buffer e @ [op_code opInfo]) = (r, buf)"
    by (cases "writeOperator_immediates opInfo (buffer e @ [op_code opInfo])")
  have "length (buffer e @ [op_code opInfo]) \<le> length buf"
    using writeOperator_immediates_length [of "buffer e @ [op_code opInfo]" opInfo] w by simp
  then show ?thesis
    using False assms w by (auto simp: writeOperator_def writeByte_def Let_def)
qed

lemma sound_writeOperator:
  assumes "bookmarksSound e"
  shows "bookmarksSound (snd (writeOperator opInfo e))"
proof (cases "writeOperator opInfo e")
  case (Pair err e')
  show ?thesis
    using operator_props [OF Pair] sound_frame [OF assms, of e'] Pair by simp
qed

lemma sound_writeEndSection:
  "bookmarksSound e \<Longrightarrow> bookmarksSound (snd (writeEndSection e))"
  by (auto simp: writeEndSection_def Let_def bookmarksSound_def inSection_def)

lemma sound_step:
  assumes "bookmarksSound e"
  shows "bookmarksSound (snd (writeStateAndResult ev e))"
  using assms
  by (cases ev)
    (simp_all add: sound_writeBeginWasm sound_writeEndWasm sound_writeBeginSection
      sound_writeEndSection sound_writeTypeSectionEntry sound_writeImportSectionEntry
      sound_writeFunctionSectionEntry sound_writeExportSectionEntry
      sound_writeBeginFunctionBody sound_writeEndFunctionBody sound_writeMemorySectionEntry
      sound_writeOperator sound_writeBeginDataSectionEntry sound_writeDataSectionBody
      sound_writeEndDataSectionEntry sound_writeBeginInitExpression
      sound_writeEndInitExpression)

lemma sound_foldl:
  "bookmarksSound e \<Longrightarrow> bookmarksSound (foldl (\<lambda>e ev. snd (writeStateAndResult ev e)) e evs)"
  by (induction evs arbitrary: e) (simp_all add: sound_step)

lemma sound_emitterAfter: "bookmarksSound (emitterAfter evs)"
  unfolding emitterAfter_def
  by (rule sound_foldl) (simp add: bookmarksSound_def inSection_def Emitter_new_def)

lemma unat_of_difference:
  assumes "b \<le> a" and "a - b < 2 ^ 32"
  shows "unat (word_of_int (int a - int b) :: u32) = a - b"
proof -
  have "int a - int b = int (a - b)"
    using assms(1) by (simp only: of_nat_diff)
  then have "(word_of_int (int a - int b) :: u32) = word_of_int (int (a - b))"
    by (simp only:)
  also have "\<dots> = of_nat (a - b)"
    by (simp only: of_int_of_nat_eq)
  finally have "unat (word_of_int (int a - int b) :: u32) = unat (of_nat (a - b) :: u32)"
    by (simp only:)
  also have "\<dots> = (a - b) mod 2 ^ 32"
    by (simp add: unat_of_nat)
  finally have "unat (word_of_int (int a - int b) :: u32) = (a - b) mod 2 ^ 32" .
  then show ?thesis
    using assms(2) by (simp only: mod_less)
qed

lemma isSectionState_inSection: "isSectionState s \<Longrightarrow> inSection s \<and> s \<noteq> FunctionBody \<and> s \<noteq> InitExpression"
  by (auto simp: isSectionState_def inSection_def)

lemma endSection_size_slot:
  assumes sound: "bookmarksSound e"
    and ok: "fst (writeEndSection e) = None"
    and fits: "position e - sectionStart e < 2 ^ 32"
  shows "sectionStart e \<le> position e
    \<and> readPatchedVarUint32 (buffer (snd (writeEndSection e))) (sectionSizeBytes e)
        = Some (position e - sectionStart e)"
proof -
  have s: "isSectionState (state e)"
    using ok by (auto simp: writeEndSection_def Let_def split: if_splits)
  then have b: "sectionSizeBytes e + 5 = sectionStart e"
      "sectionEntiesCountBytes e = sectionStart e"
      "sectionStart e + 5 \<le> length (buffer e)"
    using sound isSectionState_inSection [OF s] by (auto simp: bookmarksSound_def)
  let ?buf1 = "patchVarUint32 (sectionEntiesCountBytes e) (int (sectionEntiesCount e)) (buffer e)"
  have l1: "length ?buf1 = length (buffer e)"
    using b by (simp add: patchVarUint32_length)
  have "buffer (snd (writeEndSection e))
      = patchVarUint32 (sectionSizeBytes e) (int (length (buffer e)) - int (sectionStart e)) ?buf1"
    using s l1 by (simp add: writeEndSection_def Let_def position_def)
  moreover have "sectionSizeBytes e + 5 \<le> length ?buf1"
    using b l1 by simp
  ultimately have "readPatchedVarUint32 (buffer (snd (writeEndSection e))) (sectionSizeBytes e)
      = Some (unat (word_of_int (int (length (buffer e)) - int (sectionStart e)) :: u32))"
    by (simp add: readPatched_patch)
  moreover have "unat (word_of_int (int (length (buffer e)) - int (sectionStart e)) :: u32)
      = length (buffer e) - sectionStart e"
    using b fits by (intro unat_of_difference) (simp_all add: position_def)
  ultimately show ?thesis
    using b by (simp add: position_def)
qed

lemma endFunctionBody_size_slot:
  assumes sound: "bookmarksSound e"
    and ok: "fst (writeEndFunctionBody e) = None"
    and fits: "position e - bodyStart e < 2 ^ 32"
  shows "bodyStart e \<le> position e
    \<and> readPatchedVarUint32 (buffer (snd (writeEndFunctionBody e))) (bodySizeBytes e)
        = Some (position e - bodyStart e)"
proof -
  have s: "state e = FunctionBody" "endWritten e"
    using ok by (auto simp: writeEndFunctionBody_def Let_def split: if_splits)
  then have b: "bodySizeBytes e + 5 = bodyStart e" "bodyStart e \<le> length (buffer e)"
    using sound by (auto simp: bookmarksSound_def)
  have "buffer (snd (writeEndFunctionBody e))
      = patchVarUint32 (bodySizeBytes e) (int (length (buffer e)) - int (bodyStart e)) (buffer e)"
    using s by (simp add: writeEndFunctionBody_def Let_def position_def)
  moreover have "bodySizeBytes e + 5 \<le> length (buffer e)"
    using b by simp
  ultimately have "readPatchedVarUint32 (buffer (snd (writeEndFunctionBody e))) (bodySizeBytes e)
      = Some (unat (word_of_int (int (length (buffer e)) - int (bodyStart e)) :: u32))"
    by (simp add: readPatched_patch)
  moreover have "unat (word_of_int (int (length (buffer e)) - int (bodyStart e)) :: u32)
      = length (buffer e) - bodyStart e"
    using b fits by (intro unat_of_difference) (simp_all add: position_def)
  ultimately show ?thesis
    using b by (simp add: position_def)
qed

text \<open>
  C5. Let \<open>e\<close> be an emitter after any sequence of events written to a new emitter. If
  \<open>writeEndSection\<close> succeeds on \<open>e\<close> and the size fits in 32 bits, then the five-byte
  slot at \<open>sectionSizeBytes\<close> holds, after the call, the position at the call less
  \<open>sectionStart\<close>. If \<open>writeEndFunctionBody\<close> succeeds on \<open>e\<close> and the size fits in 32
  bits, then the slot at \<open>bodySizeBytes\<close> holds the position at the call less
  \<open>bodyStart\<close>.
\<close>

theorem size_prefix_consistency:
  assumes "e = emitterAfter evs"
  shows "(fst (writeEndSection e) = None \<and> position e - sectionStart e < 2 ^ 32 \<longrightarrow>
            sectionStart e \<le> position e
            \<and> readPatchedVarUint32 (buffer (snd (writeEndSection e))) (sectionSizeBytes e)
                = Some (position e - sectionStart e))
       \<and> (fst (writeEndFunctionBody e) = None \<and> position e - bodyStart e < 2 ^ 32 \<longrightarrow>
            bodyStart e \<le> position e
            \<and> readPatchedVarUint32 (buffer (snd (writeEndFunctionBody e))) (bodySizeBytes e)
                = Some (position e - bodyStart e))"
proof -
  have sound: "bookmarksSound e"
    unfolding assms by (rule sound_emitterAfter)
  have 1: "fst (writeEndSection e) = None \<and> position e - sectionStart e < 2 ^ 32 \<longrightarrow>
      sectionStart e \<le> position e
      \<and> readPatchedVarUint32 (buffer (snd (writeEndSection e))) (sectionSizeBytes e)
          = Some (position e - sectionStart e)"
  proof (rule impI)
    assume a: "fst (writeEndSection e) = None \<and> position e - sectionStart e < 2 ^ 32"
    show "sectionStart e \<le> position e
      \<and> readPatchedVarUint32 (buffer (snd (writeEndSection e))) (sectionSizeBytes e)
          = Some (position e - sectionStart e)"
      by (rule endSection_size_slot [OF sound conjunct1 [OF a] conjunct2 [OF a]])
  qed
  have 2: "fst (writeEndFunctionBody e) = None \<and> position e - bodyStart e < 2 ^ 32 \<longrightarrow>
      bodyStart e \<le> position e
      \<and> readPatchedVarUint32 (buffer (snd (writeEndFunctionBody e))) (bodySizeBytes e)
          = Some (position e - bodyStart e)"
  proof (rule impI)
    assume a: "fst (writeEndFunctionBody e) = None \<and> position e - bodyStart e < 2 ^ 32"
    show "bodyStart e \<le> position e
      \<and> readPatchedVarUint32 (buffer (snd (writeEndFunctionBody e))) (bodySizeBytes e)
          = Some (position e - bodyStart e)"
      by (rule endFunctionBody_size_slot [OF sound conjunct1 [OF a] conjunct2 [OF a]])
  qed
  from 1 2 show ?thesis
    by (rule conjI)
qed
theorem size_prefix_consistency_witness:
  "readPatchedVarUint32
     (buffer (snd (writeEndSection (emitterAfter
        [BEGIN_WASM None, BEGIN_SECTION \<lparr>sec_id = 3, sec_name = []\<rparr>,
         FUNCTION_SECTION_ENTRY \<lparr>fe_typeIndex = 0\<rparr>])))) 9 = Some 6
   \<and> readPatchedVarUint32
     (buffer (snd (writeEndFunctionBody (emitterAfter
        [BEGIN_WASM None, BEGIN_SECTION \<lparr>sec_id = 10, sec_name = []\<rparr>,
         BEGIN_FUNCTION_BODY \<lparr>fi_locals = []\<rparr>,
         CODE_OPERATOR \<lparr>op_code = 0x0B, op_blockType = None, op_brDepth = None,
           op_brTable = None, op_funcIndex = None, op_typeIndex = None, op_localIndex = None,
           op_globalIndex = None, op_memoryAddress = None, op_literal = None\<rparr>])))) 19 = Some 2"
proof -
  define e1 where "e1 = emitterAfter
        [BEGIN_WASM None, BEGIN_SECTION \<lparr>sec_id = 3, sec_name = []\<rparr>,
         FUNCTION_SECTION_ENTRY \<lparr>fe_typeIndex = 0\<rparr>]"
  define e2 where "e2 = emitterAfter
        [BEGIN_WASM None, BEGIN_SECTION \<lparr>sec_id = 10, sec_name = []\<rparr>,
         BEGIN_FUNCTION_BODY \<lparr>fi_locals = []\<rparr>,
         CODE_OPERATOR \<lparr>op_code = 0x0B, op_blockType = None, op_brDepth = None,
           op_brTable = None, op_funcIndex = None, op_typeIndex = None, op_localIndex = None,
           op_globalIndex = None, op_memoryAddress = None, op_literal = None\<rparr>]"
  have v1: "e1 = \<lparr>buffer = [0x00, 0x61, 0x73, 0x6d, 0x01, 0x00, 0x00, 0x00, 0x03,
        0x80, 0x80, 0x80, 0x80, 0x00, 0x80, 0x80, 0x80, 0x80, 0x00, 0x00],
      state = FunctionSection, sectionStart = 14, sectionSizeBytes = 9,
      sectionEntiesCount = 1, sectionEntiesCountBytes = 14, bodyStart = 0, bodySizeBytes = 0,
      data = None, endWritten = False, initExpressionAfterState = Initial\<rparr>"
    unfolding e1_def
    by (simp add: emitterAfter_def Emitter_new_def writeBeginWasm_def writeMutiple_def
        writeBeginSection_def writePatchableVarUint32_def SectionCode_defs Let_def
        writePatchableSectionEntriesCount_def writeVarUint_last writeFunctionSectionEntry_def)
  have v2: "e2 = \<lparr>buffer = [0x00, 0x61, 0x73, 0x6d, 0x01, 0x00, 0x00, 0x00, 0x0A,
        0x80, 0x80, 0x80, 0x80, 0x00, 0x80, 0x80, 0x80, 0x80, 0x00,
        0x80, 0x80, 0x80, 0x80, 0x00, 0x00, 0x0B],
      state = FunctionBody, sectionStart = 14, sectionSizeBytes = 9,
      sectionEntiesCount = 1, sectionEntiesCountBytes = 14, bodyStart = 24, bodySizeBytes = 19,
      data = None, endWritten = True, initExpressionAfterState = Initial\<rparr>"
    unfolding e2_def
    by (simp add: emitterAfter_def Emitter_new_def writeBeginWasm_def writeMutiple_def
        writeBeginSection_def writePatchableVarUint32_def SectionCode_defs Let_def
        writePatchableSectionEntriesCount_def writeVarUint_last writeBeginFunctionBody_def
        writeOperator_def writeOperator_immediates_def isMemoryAccess_def OperatorCode_defs
        writeByte_def)
  have a1: "fst (writeEndSection e1) = None \<and> position e1 - sectionStart e1 < 2 ^ 32"
    unfolding v1 by (simp add: writeEndSection_def isSectionState_def position_def Let_def)
  have a2: "fst (writeEndFunctionBody e2) = None \<and> position e2 - bodyStart e2 < 2 ^ 32"
    unfolding v2 by (simp add: writeEndFunctionBody_def position_def Let_def)
  have "readPatchedVarUint32 (buffer (snd (writeEndSection e1))) (sectionSizeBytes e1)
      = Some (position e1 - sectionStart e1)"
    using size_prefix_consistency [OF e1_def] a1 by blast
  moreover have "readPatchedVarUint32 (buffer (snd (writeEndFunctionBody e2))) (bodySizeBytes e2)
      = Some (position e2 - bodyStart e2)"
    using size_prefix_consistency [OF e2_def] a2 by blast
  moreover have "sectionSizeBytes e1 = 9" "position e1 - sectionStart e1 = 6"
      "bodySizeBytes e2 = 19" "position e2 - bodyStart e2 = 2"
    unfolding v1 v2 by (simp_all add: position_def)
  ultimately show ?thesis
    unfolding e1_def e2_def by (simp only:)
qed

lemma accepted_step:
  assumes sound: "bookmarksSound e"
    and inside: "inSection (state e)"
    and ev: "ev \<noteq> END_SECTION"
    and ok: "writeStateAndResult ev e = (None, e')"
  shows "inSection (state e')
    \<and> sectionStart e' = sectionStart e
    \<and> sectionSizeBytes e' = sectionSizeBytes e
    \<and> sectionEntiesCountBytes e' = sectionEntiesCountBytes e
    \<and> sectionEntiesCount e' = sectionEntiesCount e + (if isEntryEvent ev then 1 else 0)"
proof (cases ev)
  case (BEGIN_WASM x)
  then show ?thesis
    using ok inside by (auto simp: writeBeginWasm_def inSection_def split: if_splits)
next
  case END_WASM
  then show ?thesis
    using ok inside by (auto simp: writeEndWasm_def inSection_def split: if_splits)
next
  case (BEGIN_SECTION x)
  then show ?thesis
    using ok inside by (auto simp: writeBeginSection_def inSection_def split: if_splits)
next
  case END_SECTION
  then show ?thesis
    using ev by simp
next
  case (TYPE_SECTION_ENTRY x)
  then show ?thesis
    using ok inside by (auto simp: writeTypeSectionEntry_def inSection_def split: if_splits)
next
  case (IMPORT_SECTION_ENTRY x)
  then have w: "writeImportSectionEntry x e = (None, e')"
    using ok by simp
  show ?thesis
    using import_props [OF w] inside IMPORT_SECTION_ENTRY by auto
next
  case (FUNCTION_SECTION_ENTRY x)
  then show ?thesis
    using ok inside by (auto simp: writeFunctionSectionEntry_def inSection_def split: if_splits)
next
  case (EXPORT_SECTION_ENTRY x)
  then show ?thesis
    using ok inside
    by (auto simp: writeExportSectionEntry_def inSection_def Let_def split: if_splits)
next
  case (BEGIN_FUNCTION_BODY x)
  then have w: "writeBeginFunctionBody x e = (None, e')"
    using ok by simp
  show ?thesis
    using beginFunctionBody_props [OF w] inside BEGIN_FUNCTION_BODY
    by (auto simp: inSection_def)
next
  case END_FUNCTION_BODY
  then show ?thesis
    using ok inside
    by (auto simp: writeEndFunctionBody_def inSection_def Let_def split: if_splits)
next
  case (MEMORY_SECTION_ENTRY x)
  then show ?thesis
    using ok inside by (auto simp: writeMemorySectionEntry_def inSection_def split: if_splits)
next
  case (INIT_EXPRESSION_OPERATOR x)
  then have w: "writeOperator x e = (None, e')"
    using ok by simp
  show ?thesis
    using operator_props [OF w] inside INIT_EXPRESSION_OPERATOR by simp
next
  case (CODE_OPERATOR x)
  then have w: "writeOperator x e = (None, e')"
    using ok by simp
  show ?thesis
    using operator_props [OF w] inside CODE_OPERATOR by simp
next
  case (BEGIN_DATA_SECTION_ENTRY x)
  then show ?thesis
    using ok inside by (auto simp: writeBeginDataSectionEntry_def inSection_def split: if_splits)
next
  case (DATA_SECTION_ENTRY_BODY x)
  then show ?thesis
    using ok inside by (auto simp: writeDataSectionBody_def inSection_def split: if_splits)
next
  case END_DATA_SECTION_ENTRY
  then show ?thesis
    using ok inside by (auto simp: writeEndDataSectionEntry_def inSection_def split: if_splits)
next
  case BEGIN_INIT_EXPRESSION_BODY
  then show ?thesis
    using ok inside by (auto simp: writeBeginInitExpression_def inSection_def split: if_splits)
next
  case END_INIT_EXPRESSION_BODY
  then show ?thesis
    using ok inside sound
    by (auto simp: writeEndInitExpression_def inSection_def bookmarksSound_def split: if_splits)
qed (use ok in simp_all)

lemma accepted_events:
  assumes "writeEvents evs e = (None, e')"
    and "bookmarksSound e"
    and "inSection (state e)"
    and "END_SECTION \<notin> set evs"
  shows "bookmarksSound e'
    \<and> inSection (state e')
    \<and> sectionStart e' = sectionStart e
    \<and> sectionSizeBytes e' = sectionSizeBytes e
    \<and> sectionEntiesCountBytes e' = sectionEntiesCountBytes e
    \<and> sectionEntiesCount e' = sectionEntiesCount e + length (filter isEntryEvent evs)"
  using assms
proof (induction evs arbitrary: e)
  case Nil
  then show ?case by simp
next
  case (Cons ev evs)
  obtain err e1 where w: "writeStateAndResult ev e = (err, e1)"
    by (cases "writeStateAndResult ev e")
  have "err = None"
    using Cons.prems(1) w by (cases err) simp_all
  then have w': "writeStateAndResult ev e = (None, e1)"
    using w by simp
  then have rest: "writeEvents evs e1 = (None, e')"
    using Cons.prems(1) by simp
  have ev: "ev \<noteq> END_SECTION" and evs: "END_SECTION \<notin> set evs"
    using Cons.prems(4) by auto
  note step = accepted_step [OF Cons.prems(2) Cons.prems(3) ev w']
  have s1: "bookmarksSound e1"
    using sound_step [OF Cons.prems(2), of ev] w' by simp
  have i1: "inSection (state e1)"
    using step by simp
  show ?case
    using Cons.IH [OF rest s1 i1 evs] step by simp
qed

lemma unat_of_count:
  assumes "n < 2 ^ 32"
  shows "unat (word_of_int (int n) :: u32) = n"
  using unat_of_difference [of 0 n] assms by simp

text \<open>
  C6. After a \<open>BeginSection\<close> event that is accepted, any sequence of accepted events
  without an \<open>EndSection\<close>, and an \<open>EndSection\<close> event that is accepted, the five-byte
  entries-count slot holds the number of entry events in the sequence (section entries,
  function-body begins, data-entry begins). The buffer is a JavaScript array, so of fewer
  than \<open>2 ^ 32\<close> elements.
\<close>

theorem entry_count_consistency:
  assumes "writeBeginSection sec e0 = (None, e1)"
    and "writeEvents evs e1 = (None, e2)"
    and "END_SECTION \<notin> set evs"
    and "writeEndSection e2 = (None, e3)"
    and "length (buffer e3) < 2 ^ 32"
  shows "readPatchedVarUint32 (buffer e3) (sectionEntiesCountBytes e1)
    = Some (length (filter isEntryEvent evs))"
proof -
  note b = begun_section [OF assms(1)]
  have s1: "bookmarksSound e1"
    using b by (simp add: bookmarksSound_def)
  have i1: "inSection (state e1)"
    using b by simp
  note r = accepted_events [OF assms(2) s1 i1 assms(3)]
  define n where "n = length (filter isEntryEvent evs)"
  have count: "sectionEntiesCount e2 = n"
    using r b by (simp add: n_def)
  have slots: "sectionSizeBytes e2 + 5 = sectionEntiesCountBytes e2"
      "sectionEntiesCountBytes e2 + 5 + n \<le> length (buffer e2)"
      "sectionEntiesCountBytes e2 = sectionEntiesCountBytes e1"
    using r count by (auto simp: bookmarksSound_def)
  let ?buf1 = "patchVarUint32 (sectionEntiesCountBytes e2) (int n) (buffer e2)"
  have l1: "length ?buf1 = length (buffer e2)"
    using slots by (simp add: patchVarUint32_length)
  have s: "isSectionState (state e2)"
    using assms(4) by (auto simp: writeEndSection_def Let_def split: if_splits)
  have e3: "buffer e3 = patchVarUint32 (sectionSizeBytes e2)
      (int (length ?buf1) - int (sectionStart e2)) ?buf1"
    using assms(4) s count by (auto simp: writeEndSection_def Let_def position_def)
  have l3: "length (buffer e3) = length (buffer e2)"
    unfolding e3 using slots l1 by (simp add: patchVarUint32_length)
  have "readPatchedVarUint32 (buffer e3) (sectionEntiesCountBytes e2)
      = readPatchedVarUint32 ?buf1 (sectionEntiesCountBytes e2)"
    unfolding e3 using slots l1 by (intro readPatched_elsewhere) simp_all
  also have "\<dots> = Some (unat (word_of_int (int n) :: u32))"
    using slots by (intro readPatched_patch) simp
  also have "unat (word_of_int (int n) :: u32) = n"
    using slots assms(5) l3 by (intro unat_of_count) simp
  finally show ?thesis
    using slots by (simp add: n_def)
qed

theorem entry_count_consistency_witness:
  "readPatchedVarUint32
     (buffer (snd (writeEndSection (snd (writeEvents
        [FUNCTION_SECTION_ENTRY \<lparr>fe_typeIndex = 0\<rparr>, FUNCTION_SECTION_ENTRY \<lparr>fe_typeIndex = 1\<rparr>]
        (snd (writeBeginSection \<lparr>sec_id = 3, sec_name = []\<rparr>
           (Emitter_new\<lparr>state := Wasm\<rparr>)))))))) 6 = Some 2"
proof -
  define e1 where "e1 = snd (writeBeginSection \<lparr>sec_id = 3, sec_name = []\<rparr>
      (Emitter_new\<lparr>state := Wasm\<rparr>))"
  define e2 where "e2 = snd (writeEvents
      [FUNCTION_SECTION_ENTRY \<lparr>fe_typeIndex = 0\<rparr>, FUNCTION_SECTION_ENTRY \<lparr>fe_typeIndex = 1\<rparr>] e1)"
  define e3 where "e3 = snd (writeEndSection e2)"
  have v1: "e1 = \<lparr>buffer = [0x03, 0x80, 0x80, 0x80, 0x80, 0x00, 0x80, 0x80, 0x80, 0x80, 0x00],
      state = FunctionSection, sectionStart = 6, sectionSizeBytes = 1,
      sectionEntiesCount = 0, sectionEntiesCountBytes = 6, bodyStart = 0, bodySizeBytes = 0,
      data = None, endWritten = False, initExpressionAfterState = Initial\<rparr>"
    unfolding e1_def
    by (simp add: Emitter_new_def writeMutiple_def writeBeginSection_def
        writePatchableVarUint32_def SectionCode_defs Let_def
        writePatchableSectionEntriesCount_def writeVarUint_last)
  have a1: "writeBeginSection \<lparr>sec_id = 3, sec_name = []\<rparr> (Emitter_new\<lparr>state := Wasm\<rparr>)
      = (None, e1)"
    unfolding e1_def
    by (simp add: Emitter_new_def writeMutiple_def writeBeginSection_def
        writePatchableVarUint32_def SectionCode_defs Let_def
        writePatchableSectionEntriesCount_def writeVarUint_last)
  have v2: "e2 = \<lparr>buffer = [0x03, 0x80, 0x80, 0x80, 0x80, 0x00, 0x80, 0x80, 0x80, 0x80, 0x00,
        0x00, 0x01],
      state = FunctionSection, sectionStart = 6, sectionSizeBytes = 1,
      sectionEntiesCount = 2, sectionEntiesCountBytes = 6, bodyStart = 0, bodySizeBytes = 0,
      data = None, endWritten = False, initExpressionAfterState = Initial\<rparr>"
    unfolding e2_def v1 by (simp add: writeFunctionSectionEntry_def writeVarUint_last)
  have a2: "writeEvents
      [FUNCTION_SECTION_ENTRY \<lparr>fe_typeIndex = 0\<rparr>, FUNCTION_SECTION_ENTRY \<lparr>fe_typeIndex = 1\<rparr>] e1
      = (None, e2)"
    unfolding e2_def v1 by (simp add: writeFunctionSectionEntry_def writeVarUint_last)
  have a4: "writeEndSection e2 = (None, e3)"
    unfolding e3_def v2 by (simp add: writeEndSection_def isSectionState_def Let_def)
  have l3: "length (buffer e3) = 13"
    unfolding e3_def v2
    by (simp add: writeEndSection_def isSectionState_def Let_def position_def
        patchVarUint32_length)
  have "readPatchedVarUint32 (buffer e3) (sectionEntiesCountBytes e1)
      = Some (length (filter isEntryEvent
          [FUNCTION_SECTION_ENTRY \<lparr>fe_typeIndex = 0\<rparr>, FUNCTION_SECTION_ENTRY \<lparr>fe_typeIndex = 1\<rparr>]))"
    by (rule entry_count_consistency [OF a1 a2 _ a4]) (simp_all add: l3)
  moreover have "sectionEntiesCountBytes e1 = 6"
    unfolding v1 by simp
  ultimately show ?thesis
    unfolding e3_def e2_def e1_def by simp
qed

lemma script_read_Nil:
  "rd_read scriptReader \<lparr>sr_script = [], sr_state = s, sr_hasMoreBytes = h\<rparr>
   = (False, \<lparr>sr_script = [], sr_state = s, sr_hasMoreBytes = h\<rparr>)"
  by (simp add: scriptReader_def)

lemma script_read_NeedMoreBytes:
  "rd_read scriptReader (r\<lparr>sr_script := NeedMoreBytes # rest\<rparr>) = (False, r\<lparr>sr_script := rest\<rparr>)"
  by (simp add: scriptReader_def)

lemma disassemble_case_script:
  "disassemble_case X scriptReader \<lparr>sr_script = s, sr_state = st, sr_hasMoreBytes = a\<rparr> d ev
   = (fst (disassemble_case X scriptReader \<lparr>sr_script = [], sr_state = st, sr_hasMoreBytes = a\<rparr> d ev),
      \<lparr>sr_script = s, sr_state = st, sr_hasMoreBytes = a\<rparr>,
      snd (snd (disassemble_case X scriptReader
                  \<lparr>sr_script = [], sr_state = st, sr_hasMoreBytes = a\<rparr> d ev)))"
  by (cases ev)
    (simp_all add: scriptReader_simps afterPush_def Let_def
      split: prod.split option.split sum.split)

lemma script_prefix:
  assumes "NeedMoreBytes \<notin> set s1"
    and "disassemble X scriptReader \<lparr>sr_script = s1, sr_state = st, sr_hasMoreBytes = h\<rparr> d0
         = Some (Null, r1, d1)"
  shows "disassemble X scriptReader
           \<lparr>sr_script = s1 @ rest, sr_state = st, sr_hasMoreBytes = h\<rparr> d0
         = disassemble X scriptReader (r1\<lparr>sr_script := rest\<rparr>) d1"
  using assms
proof (induction s1 arbitrary: st h d0)
  case Nil
  have "disassemble X scriptReader \<lparr>sr_script = [], sr_state = st, sr_hasMoreBytes = h\<rparr> d0
      = Some (Null, \<lparr>sr_script = [], sr_state = st, sr_hasMoreBytes = h\<rparr>, d0)"
    by (rule disassemble_read_false [OF script_read_Nil])
  then have "r1 = \<lparr>sr_script = [], sr_state = st, sr_hasMoreBytes = h\<rparr>" "d1 = d0"
    using Nil.prems(2) by simp_all
  then show ?case
    by simp
next
  case (Cons step s)
  obtain ev a where step: "step = Deliver ev a"
    using Cons.prems(1) by (cases step) auto
  define res where "res = fst (disassemble_case X scriptReader
      \<lparr>sr_script = [], sr_state = ev, sr_hasMoreBytes = a\<rparr> d0 ev)"
  define dd where "dd = snd (snd (disassemble_case X scriptReader
      \<lparr>sr_script = [], sr_state = ev, sr_hasMoreBytes = a\<rparr> d0 ev))"
  have c: "disassemble_case X scriptReader \<lparr>sr_script = t, sr_state = ev, sr_hasMoreBytes = a\<rparr> d0 ev
      = (res, \<lparr>sr_script = t, sr_state = ev, sr_hasMoreBytes = a\<rparr>, dd)" for t
    unfolding res_def dd_def by (rule disassemble_case_script)
  have run: "disassemble X scriptReader \<lparr>sr_script = step # t, sr_state = st, sr_hasMoreBytes = h\<rparr> d0
      = (case res of
           Break \<Rightarrow> disassemble X scriptReader \<lparr>sr_script = t, sr_state = ev, sr_hasMoreBytes = a\<rparr> dd
         | Return result \<Rightarrow> Some (Text result, \<lparr>sr_script = t, sr_state = ev, sr_hasMoreBytes = a\<rparr>, dd)
         | Throw err \<Rightarrow> Some (Exception err, \<lparr>sr_script = t, sr_state = ev, sr_hasMoreBytes = a\<rparr>, dd))"
    for t
    unfolding step by (cases res) (simp_all add: disassemble_script_Deliver c)
  have "res = Break"
    using Cons.prems(2) run [of s] by (cases res) simp_all
  then have "disassemble X scriptReader \<lparr>sr_script = s, sr_state = ev, sr_hasMoreBytes = a\<rparr> dd
      = Some (Null, r1, d1)"
    using Cons.prems(2) run [of s] by simp
  then have "disassemble X scriptReader
      \<lparr>sr_script = s @ rest, sr_state = ev, sr_hasMoreBytes = a\<rparr> dd
      = disassemble X scriptReader (r1\<lparr>sr_script := rest\<rparr>) d1"
    using Cons.IH Cons.prems(1) by simp
  then show ?case
    using run [of "s @ rest"] \<open>res = Break\<close> by simp
qed

lemma push_keeps: "dis_buffer (push fragments d) = dis_buffer d @ fragments"
  by (simp add: push_def)

lemma export_keeps_text:
  "\<exists>fragments. dis_buffer (snd (disassemble_export exportInfo d)) = dis_buffer d @ fragments"
  by (simp add: disassemble_export_def Let_def push_def)

lemma import_keeps_text:
  "\<exists>fragments. dis_buffer (snd (disassemble_import importInfo d)) = dis_buffer d @ fragments"
  by (simp add: disassemble_import_def Let_def push_def
      split: sum.split option.split ImportType.split)

lemma beginFunctionBody_keeps_text:
  "\<exists>fragments. dis_buffer (snd (disassemble_beginFunctionBody func d)) = dis_buffer d @ fragments"
  by (simp add: disassemble_beginFunctionBody_def Let_def push_def
      split: sum.split option.split prod.split)

lemma operator_keeps_text:
  "\<exists>fragments. dis_buffer (snd (disassemble_operator X operator d)) = dis_buffer d @ fragments"
proof -
  define p1 where "p1 = (\<lambda>d str.
      let d = push [case dis_indent d of None \<Rightarrow> [] | Some s \<Rightarrow> s, str] d;
          d = (case op_localIndex operator of
                 None \<Rightarrow> d | Some i \<Rightarrow> push ['' $var'' @ u32ToString i] d);
          d = (case op_funcIndex operator of
                 None \<Rightarrow> d | Some i \<Rightarrow> push ['' $func'' @ u32ToString i] d)
      in (case op_typeIndex operator of
            None \<Rightarrow> d | Some i \<Rightarrow> push ['' $type'' @ u32ToString i] d))"
  define p2 where "p2 = (\<lambda>d fragments.
      let d = push fragments d;
          d = (case op_memoryAddress operator of
                 None \<Rightarrow> d
               | Some a \<Rightarrow> push ['' '' @ memoryAddressToString a (op_code operator)] d);
          d = (case op_brDepth operator of
                 None \<Rightarrow> d | Some n \<Rightarrow> push ['' '' @ u32ToString n] d);
          d = (case op_brTable operator of
                 None \<Rightarrow> d
               | Some brTable \<Rightarrow>
                   push (map (\<lambda>i. '' '' @ u32ToString (brTable ! i)) [0..<length brTable]) d);
          d = (case op_globalIndex operator of
                 None \<Rightarrow> d | Some i \<Rightarrow> push ['' $global'' @ u32ToString i] d)
      in push [''\<newline>''] d)"
  have k1: "\<exists>fragments. dis_buffer (p1 d str) = dis_buffer d @ fragments" for d str
    by (simp add: p1_def Let_def push_def split: option.split)
  have k2: "\<exists>fragments. dis_buffer (p2 d fr) = dis_buffer d @ fragments" for d fr
    by (simp add: p2_def Let_def push_def split: option.split)
  have k12: "\<exists>fragments. dis_buffer (p2 (p1 d str) fr) = dis_buffer d @ fragments" for d str fr
    using k1 [of d str] k2 [of "p1 d str" fr] by auto
  have k3: "\<exists>fragments. dis_buffer (increaseIndent (p2 (p1 d str) fr)) = dis_buffer d @ fragments"
    for d str fr
    using k12 [of d str fr] by (simp add: increaseIndent_def)
  have eq: "disassemble_operator X operator d =
     (let code = op_code operator in
      if code = OperatorCode_end \<and> dis_indentLevel d = 0 then (None, d)
      else
        (case (if code = OperatorCode_end \<or> code = OperatorCode_else
               then decreaseIndent d else (None, d)) of
           (Some err, d) \<Rightarrow> (Some err, d)
         | (None, d) \<Rightarrow>
             (case OperatorCodeNames X code of
                None \<Rightarrow> (Some DisTypeError, d)
              | Some name \<Rightarrow>
                  (case (case op_blockType operator of
                           None \<Rightarrow> Inr (replaceSuffix (replacePrefix name))
                         | Some blockType \<Rightarrow>
                             if blockType \<noteq> Type_empty_block_type
                             then bindE (typeToString blockType)
                                    (\<lambda>t. Inr (replaceSuffix (replacePrefix name) @ '' '' @ t))
                             else Inr (replaceSuffix (replacePrefix name))) of
                     Inl err \<Rightarrow> (Some err, d)
                   | Inr str \<Rightarrow>
                       (case (case op_literal operator of
                                None \<Rightarrow> Inr []
                              | Some literal \<Rightarrow> literalText X code literal) of
                          Inl err \<Rightarrow> (Some err, p1 d str)
                        | Inr fragments \<Rightarrow>
                            if code = OperatorCode_if \<or> code = OperatorCode_block
                               \<or> code = OperatorCode_loop \<or> code = OperatorCode_else
                            then (None, increaseIndent (p2 (p1 d str) fragments))
                            else (None, p2 (p1 d str) fragments))))))"
    unfolding disassemble_operator_def p1_def p2_def by (simp only: Let_def)
  have dec: "dis_buffer (snd (decreaseIndent d)) = dis_buffer d"
    by (simp add: decreaseIndent_def split: option.split)
  define blockText where "blockText = (\<lambda>name. case op_blockType operator of
       None \<Rightarrow> Inr (replaceSuffix (replacePrefix name))
     | Some blockType \<Rightarrow>
         if blockType \<noteq> Type_empty_block_type
         then bindE (typeToString blockType)
                (\<lambda>t. Inr (replaceSuffix (replacePrefix name) @ '' '' @ t))
         else (Inr (replaceSuffix (replacePrefix name)) :: DisError + string))"
  define lit where "lit = (case op_literal operator of
       None \<Rightarrow> Inr []
     | Some literal \<Rightarrow> literalText X (op_code operator) literal)"
  define dA where "dA = (if op_code operator = OperatorCode_end \<or> op_code operator = OperatorCode_else
      then decreaseIndent d else (None, d))"
  have bA: "dis_buffer (snd dA) = dis_buffer d"
    by (simp add: dA_def dec)
  have eq2: "disassemble_operator X operator d =
     (if op_code operator = OperatorCode_end \<and> dis_indentLevel d = 0 then (None, d)
      else
        (case dA of
           (Some err, d) \<Rightarrow> (Some err, d)
         | (None, d) \<Rightarrow>
             (case OperatorCodeNames X (op_code operator) of
                None \<Rightarrow> (Some DisTypeError, d)
              | Some name \<Rightarrow>
                  (case blockText name of
                     Inl err \<Rightarrow> (Some err, d)
                   | Inr str \<Rightarrow>
                       (case lit of
                          Inl err \<Rightarrow> (Some err, p1 d str)
                        | Inr fragments \<Rightarrow>
                            if op_code operator = OperatorCode_if
                               \<or> op_code operator = OperatorCode_block
                               \<or> op_code operator = OperatorCode_loop
                               \<or> op_code operator = OperatorCode_else
                            then (None, increaseIndent (p2 (p1 d str) fragments))
                            else (None, p2 (p1 d str) fragments))))))"
    unfolding eq blockText_def lit_def dA_def by (simp only: Let_def)
  obtain eA d2 where dA: "dA = (eA, d2)"
    by (cases dA)
  have b2: "dis_buffer d2 = dis_buffer d"
    using bA dA by simp
  show ?thesis
    unfolding eq2 dA
    using k1 [of d2] k12 [of d2] k3 [of d2] b2
    by (simp split: option.split sum.split)
qed

lemma case_keeps_text:
  assumes "fst (disassemble_case X R r d ev) = Break"
  shows "\<exists>fragments. dis_buffer (snd (snd (disassemble_case X R r d ev))) = dis_buffer d @ fragments"
proof (cases ev)
  case (EXPORT_SECTION_ENTRY x)
  then show ?thesis
    using export_keeps_text [of x d]
    by (cases "disassemble_export x d") (auto simp: afterPush_def split: option.split)
next
  case (IMPORT_SECTION_ENTRY x)
  then show ?thesis
    using import_keeps_text [of x d]
    by (cases "disassemble_import x d") (auto simp: afterPush_def split: option.split)
next
  case (BEGIN_FUNCTION_BODY x)
  then show ?thesis
    using beginFunctionBody_keeps_text [of x d]
    by (cases "disassemble_beginFunctionBody x d") (auto simp: afterPush_def split: option.split)
next
  case (INIT_EXPRESSION_OPERATOR x)
  then show ?thesis
    using operator_keeps_text [of X x d]
    by (cases "disassemble_operator X x d") (auto simp: afterPush_def split: option.split)
next
  case (CODE_OPERATOR x)
  then show ?thesis
    using operator_keeps_text [of X x d]
    by (cases "disassemble_operator X x d") (auto simp: afterPush_def split: option.split)
next
  case END_WASM
  then show ?thesis
    using assms by (auto simp: Let_def push_def split: if_splits)
qed (simp_all add: Let_def push_def split: sum.split option.split)

lemma script_keeps_text:
  assumes "NeedMoreBytes \<notin> set s1"
    and "disassemble X scriptReader \<lparr>sr_script = s1, sr_state = st, sr_hasMoreBytes = h\<rparr> d0
         = Some (Null, r1, d1)"
  shows "\<exists>fragments. dis_buffer d1 = dis_buffer d0 @ fragments"
  using assms
proof (induction s1 arbitrary: st h d0)
  case Nil
  have "disassemble X scriptReader \<lparr>sr_script = [], sr_state = st, sr_hasMoreBytes = h\<rparr> d0
      = Some (Null, \<lparr>sr_script = [], sr_state = st, sr_hasMoreBytes = h\<rparr>, d0)"
    by (rule disassemble_read_false [OF script_read_Nil])
  then have "d1 = d0"
    using Nil.prems(2) by simp
  then show ?case
    by simp
next
  case (Cons step s)
  obtain ev a where step: "step = Deliver ev a"
    using Cons.prems(1) by (cases step) auto
  let ?r = "\<lparr>sr_script = s, sr_state = ev, sr_hasMoreBytes = a\<rparr>"
  obtain res r' dd where c: "disassemble_case X scriptReader ?r d0 ev = (res, r', dd)"
    by (cases "disassemble_case X scriptReader ?r d0 ev")
  have r': "r' = ?r"
    using c disassemble_case_script [of X s ev a d0 ev] by simp
  have run: "disassemble X scriptReader \<lparr>sr_script = step # s, sr_state = st, sr_hasMoreBytes = h\<rparr> d0
      = (case res of
           Break \<Rightarrow> disassemble X scriptReader ?r dd
         | Return result \<Rightarrow> Some (Text result, ?r, dd)
         | Throw err \<Rightarrow> Some (Exception err, ?r, dd))"
    unfolding step using c r' by (cases res) (simp_all add: disassemble_script_Deliver)
  have break: "res = Break"
    using Cons.prems(2) run by (cases res) simp_all
  then have run2: "disassemble X scriptReader ?r dd = Some (Null, r1, d1)"
    using Cons.prems(2) run by simp
  have ns: "NeedMoreBytes \<notin> set s"
    using Cons.prems(1) by simp
  obtain f2 where f2: "dis_buffer d1 = dis_buffer dd @ f2"
    using Cons.IH [OF ns run2] by blast
  obtain f1 where f1: "dis_buffer dd = dis_buffer d0 @ f1"
    using case_keeps_text [of X scriptReader ?r d0 ev] c break by auto
  show ?case
    using f1 f2 by simp
qed

text \<open>
  C9. A call of \<open>disassemble\<close> returns \<open>null\<close> as soon as \<open>read()\<close> answers false, with
  the disassembler, and so the fragments of text, as they are at that point. For a reader
  that plays a script: if the events of \<open>s1\<close> are all taken without a return or an
  exception, then a call on \<open>s1\<close>, a \<open>read()\<close> that answers false, and \<open>s2\<close> returns
  \<open>null\<close> with the disassembler that \<open>s1\<close> leaves, a second call on what is left
  gives the result that one call on \<open>s1\<close> followed by \<open>s2\<close> gives, and the buffer
  that \<open>s1\<close> leaves is the buffer before the call with fragments added at its end.
\<close>

theorem disassemble_null_and_resume:
  assumes "NeedMoreBytes \<notin> set s1"
    and "disassemble X scriptReader \<lparr>sr_script = s1, sr_state = st, sr_hasMoreBytes = h\<rparr> d0
         = Some (Null, r1, d1)"
  shows "(rd_read R r = (False, r') \<longrightarrow> disassemble X R r d = Some (Null, r', d))
    \<and> disassemble X scriptReader
          \<lparr>sr_script = s1 @ NeedMoreBytes # s2, sr_state = st, sr_hasMoreBytes = h\<rparr> d0
        = Some (Null, r1\<lparr>sr_script := s2\<rparr>, d1)
    \<and> disassemble X scriptReader (r1\<lparr>sr_script := s2\<rparr>) d1
        = disassemble X scriptReader
            \<lparr>sr_script = s1 @ s2, sr_state = st, sr_hasMoreBytes = h\<rparr> d0
    \<and> (\<exists>fragments. dis_buffer d1 = dis_buffer d0 @ fragments)"
proof -
  have 4: "\<exists>fragments. dis_buffer d1 = dis_buffer d0 @ fragments"
    by (rule script_keeps_text [OF assms])
  have 1: "rd_read R r = (False, r') \<longrightarrow> disassemble X R r d = Some (Null, r', d)"
    by (simp add: disassemble_read_false)
  have "disassemble X scriptReader
          \<lparr>sr_script = s1 @ NeedMoreBytes # s2, sr_state = st, sr_hasMoreBytes = h\<rparr> d0
      = disassemble X scriptReader (r1\<lparr>sr_script := NeedMoreBytes # s2\<rparr>) d1"
    by (rule script_prefix [OF assms])
  also have "\<dots> = Some (Null, r1\<lparr>sr_script := s2\<rparr>, d1)"
    by (rule disassemble_read_false [OF script_read_NeedMoreBytes])
  finally have 2: "disassemble X scriptReader
          \<lparr>sr_script = s1 @ NeedMoreBytes # s2, sr_state = st, sr_hasMoreBytes = h\<rparr> d0
      = Some (Null, r1\<lparr>sr_script := s2\<rparr>, d1)" .
  have 3: "disassemble X scriptReader (r1\<lparr>sr_script := s2\<rparr>) d1
      = disassemble X scriptReader
          \<lparr>sr_script = s1 @ s2, sr_state = st, sr_hasMoreBytes = h\<rparr> d0"
    by (rule script_prefix [OF assms, symmetric])
  from 1 2 3 4 show ?thesis
    by (intro conjI)
qed

theorem disassemble_null_and_resume_witness:
  "disassemble \<lparr>OperatorCodeNames = (\<lambda>c. None), float32ToString = (\<lambda>n. []),
        float64ToString = (\<lambda>n. []), int64ToDoubleString = (\<lambda>n. [])\<rparr> scriptReader
     \<lparr>sr_script = [Deliver (BEGIN_WASM None) True, NeedMoreBytes, Deliver END_WASM False],
      sr_state = OTHER_STATE 0, sr_hasMoreBytes = True\<rparr> WasmDisassembler_new
   = Some (Null,
       \<lparr>sr_script = [Deliver END_WASM False], sr_state = BEGIN_WASM None, sr_hasMoreBytes = True\<rparr>,
       WasmDisassembler_new\<lparr>dis_buffer := [''(module\<newline>'']\<rparr>)
   \<and> disassemble \<lparr>OperatorCodeNames = (\<lambda>c. None), float32ToString = (\<lambda>n. []),
        float64ToString = (\<lambda>n. []), int64ToDoubleString = (\<lambda>n. [])\<rparr> scriptReader
     \<lparr>sr_script = [Deliver END_WASM False], sr_state = BEGIN_WASM None, sr_hasMoreBytes = True\<rparr>
     (WasmDisassembler_new\<lparr>dis_buffer := [''(module\<newline>'']\<rparr>)
   = Some (Text ''(module\<newline>)\<newline>'',
       \<lparr>sr_script = [], sr_state = END_WASM, sr_hasMoreBytes = False\<rparr>,
       WasmDisassembler_new)"
proof -
  define X where "X = \<lparr>OperatorCodeNames = (\<lambda>c :: byte. None :: string option),
      float32ToString = (\<lambda>n :: 32 word. [] :: string),
      float64ToString = (\<lambda>n :: 64 word. [] :: string),
      int64ToDoubleString = (\<lambda>n :: byte list. [] :: string)\<rparr>"
  define r1 where "r1 = \<lparr>sr_script = [], sr_state = BEGIN_WASM None, sr_hasMoreBytes = True\<rparr>"
  define d1 where "d1 = WasmDisassembler_new\<lparr>dis_buffer := [''(module\<newline>'']\<rparr>"
  have a: "NeedMoreBytes \<notin> set [Deliver (BEGIN_WASM None) True]"
    by simp
  have b: "disassemble X scriptReader
      \<lparr>sr_script = [Deliver (BEGIN_WASM None) True], sr_state = OTHER_STATE 0,
       sr_hasMoreBytes = True\<rparr> WasmDisassembler_new = Some (Null, r1, d1)"
    unfolding r1_def d1_def
    by (simp add: disassemble_script_Deliver disassemble_read_false [OF script_read_Nil]
        push_def WasmDisassembler_new_def)
  note t = disassemble_null_and_resume [OF a b, of scriptReader r1 r1 d1 "[Deliver END_WASM False]"]
  have first: "disassemble X scriptReader
      \<lparr>sr_script = [Deliver (BEGIN_WASM None) True, NeedMoreBytes, Deliver END_WASM False],
       sr_state = OTHER_STATE 0, sr_hasMoreBytes = True\<rparr> WasmDisassembler_new
      = Some (Null, r1\<lparr>sr_script := [Deliver END_WASM False]\<rparr>, d1)"
    using t by simp
  have "disassemble X scriptReader
      \<lparr>sr_script = [Deliver (BEGIN_WASM None) True, Deliver END_WASM False],
       sr_state = OTHER_STATE 0, sr_hasMoreBytes = True\<rparr> WasmDisassembler_new
      = Some (Text ''(module\<newline>)\<newline>'',
          \<lparr>sr_script = [], sr_state = END_WASM, sr_hasMoreBytes = False\<rparr>,
          WasmDisassembler_new)"
    by (simp add: disassemble_script_Deliver scriptReader_simps push_def
        WasmDisassembler_new_def)
  then have second: "disassemble X scriptReader (r1\<lparr>sr_script := [Deliver END_WASM False]\<rparr>) d1
      = Some (Text ''(module\<newline>)\<newline>'',
          \<lparr>sr_script = [], sr_state = END_WASM, sr_hasMoreBytes = False\<rparr>,
          WasmDisassembler_new)"
    using t by simp
  show ?thesis
    using first second unfolding X_def r1_def d1_def by simp
qed

end
